theory Spec2Isabelle
  imports Main "HOL-Library.Word"
begin

section \<open>Kernel types and status codes\<close>

text \<open>
  \<^verbatim>\<open>NTSTATUS\<close> is a signed 32-bit value and \<^verbatim>\<open>ULONG\<close> an unsigned one; \<^verbatim>\<open>size_t\<close>
  values are only compared, never added, so they are natural numbers.
  \<^verbatim>\<open>NT_SUCCESS(Status)\<close> is \<^verbatim>\<open>((NTSTATUS)(Status)) >= 0\<close>.
\<close>

type_synonym NTSTATUS = "32 word"
type_synonym ULONG = "32 word"

definition NT_SUCCESS :: "NTSTATUS \<Rightarrow> bool" where
  "NT_SUCCESS s = (0 \<le> sint s)"

definition STATUS_SUCCESS :: NTSTATUS where
  "STATUS_SUCCESS = 0x00000000"

definition STATUS_PENDING :: NTSTATUS where
  "STATUS_PENDING = 0x00000103"

definition STATUS_INVALID_PARAMETER :: NTSTATUS where
  "STATUS_INVALID_PARAMETER = 0xC000000D"

definition STATUS_BUFFER_TOO_SMALL :: NTSTATUS where
  "STATUS_BUFFER_TOO_SMALL = 0xC0000023"

definition STATUS_NOT_SUPPORTED :: NTSTATUS where
  "STATUS_NOT_SUPPORTED = 0xC00000BB"

definition STATUS_DEVICE_DOES_NOT_EXIST :: NTSTATUS where
  "STATUS_DEVICE_DOES_NOT_EXIST = 0xC00000C0"

definition STATUS_DEVICE_BUSY :: NTSTATUS where
  "STATUS_DEVICE_BUSY = 0x80000011"

section \<open>Data crossing the boundary\<close>

text \<open>The two target types that \<^verbatim>\<open>Bus_EvtIoDeviceControl\<close> names.\<close>

datatype VIGEM_TARGET_TYPE = Xbox360Wired | DualShock4Wired

text \<open>
  The request's system buffer, read through the structure pointer of the case at hand:
  \<^verbatim>\<open>pCheckVersion->Version\<close>, \<^verbatim>\<open>xusbSubmit->Size\<close>, \<^verbatim>\<open>xusbSubmit->SerialNo\<close>,
  \<^verbatim>\<open>pXusbGetUserIndex->UserIndex\<close>. The remaining bytes are the payload, which the
  dispatcher hands on unread.
\<close>

record io_buffer =
  Size :: ULONG
  Version :: ULONG
  SerialNo :: ULONG
  UserIndex :: ULONG
  Payload :: "8 word list"

text \<open>
  Constants of headers that the dispatcher uses by name: the eight I/O control codes,
  \<^verbatim>\<open>sizeof\<close> of the six request structures, and the compiled protocol version.
\<close>

record build_constants =
  IOCTL_VIGEM_CHECK_VERSION :: ULONG
  IOCTL_VIGEM_PLUGIN_TARGET :: ULONG
  IOCTL_VIGEM_UNPLUG_TARGET :: ULONG
  IOCTL_XUSB_SUBMIT_REPORT :: ULONG
  IOCTL_XUSB_REQUEST_NOTIFICATION :: ULONG
  IOCTL_DS4_SUBMIT_REPORT :: ULONG
  IOCTL_DS4_REQUEST_NOTIFICATION :: ULONG
  IOCTL_XUSB_GET_USER_INDEX :: ULONG
  sizeof_VIGEM_CHECK_VERSION :: nat
  sizeof_XUSB_SUBMIT_REPORT :: nat
  sizeof_XUSB_REQUEST_NOTIFICATION :: nat
  sizeof_DS4_SUBMIT_REPORT :: nat
  sizeof_DS4_REQUEST_NOTIFICATION :: nat
  sizeof_XUSB_GET_USER_INDEX :: nat
  VIGEM_COMMON_VERSION :: ULONG

text \<open>
  The case labels of a \<^verbatim>\<open>switch\<close> are pairwise different, or the translation unit
  does not compile.
\<close>

definition case_labels :: "build_constants \<Rightarrow> ULONG list" where
  "case_labels k =
     [IOCTL_VIGEM_CHECK_VERSION k, IOCTL_VIGEM_PLUGIN_TARGET k, IOCTL_VIGEM_UNPLUG_TARGET k,
      IOCTL_XUSB_SUBMIT_REPORT k, IOCTL_XUSB_REQUEST_NOTIFICATION k,
      IOCTL_DS4_SUBMIT_REPORT k, IOCTL_DS4_REQUEST_NOTIFICATION k,
      IOCTL_XUSB_GET_USER_INDEX k]"

section \<open>Collaborators\<close>

text \<open>
  The functions that \<^verbatim>\<open>Bus_EvtIoDeviceControl\<close> calls and that live outside
  \<^verbatim>\<open>Queue.cpp\<close> are parameters of the model. \<open>'s\<close> is the state of the bus (the
  registry of targets and every target's own state), \<open>'p\<close> a target object, \<open>'r\<close> a
  request handle. Each function that receives the device or a target may change the state.
  \<^item> \<open>WdfRequestRetrieveInputBuffer r n\<close>: the status, the buffer and the value left in
    \<^verbatim>\<open>length\<close> when the framework is asked for at least \<open>n\<close> bytes of input;
  \<^item> \<open>GetPdoByTypeAndSerial t n\<close>: \<open>None\<close> where the source function returns false;
  \<^item> \<open>GetUserIndex p\<close>: the status and the value stored through the pointer it is given,
    \<open>None\<close> when it stores nothing;
  \<^item> \<open>Bus_PlugInDevice\<close>, \<open>Bus_UnPlugDevice\<close>: the status and the value left in
    \<^verbatim>\<open>length\<close>.
\<close>

record ('s, 'p, 'r) collaborators =
  WdfRequestRetrieveInputBuffer :: "'r \<Rightarrow> nat \<Rightarrow> NTSTATUS \<times> io_buffer \<times> nat"
  GetPdoByTypeAndSerial :: "VIGEM_TARGET_TYPE \<Rightarrow> ULONG \<Rightarrow> 's \<Rightarrow> 'p option \<times> 's"
  SubmitReport :: "'p \<Rightarrow> io_buffer \<Rightarrow> 's \<Rightarrow> NTSTATUS \<times> 's"
  EnqueueNotification :: "'p \<Rightarrow> 'r \<Rightarrow> 's \<Rightarrow> NTSTATUS \<times> 's"
  GetUserIndex :: "'p \<Rightarrow> 's \<Rightarrow> (NTSTATUS \<times> ULONG option) \<times> 's"
  Bus_PlugInDevice :: "'r \<Rightarrow> 's \<Rightarrow> (NTSTATUS \<times> nat) \<times> 's"
  Bus_UnPlugDevice :: "'r \<Rightarrow> 's \<Rightarrow> (NTSTATUS \<times> nat) \<times> 's"

text \<open>What the dispatcher did, in order: one event for each call it makes.\<close>

datatype 'p event =
    Call_RetrieveInputBuffer nat
  | Call_GetPdoByTypeAndSerial VIGEM_TARGET_TYPE ULONG
  | Call_SubmitReport 'p
  | Call_EnqueueNotification 'p
  | Call_GetUserIndex 'p
  | Call_PlugInDevice
  | Call_UnPlugDevice
  | Call_CompleteWithInformation NTSTATUS nat

text \<open>
  The local variables \<^verbatim>\<open>status\<close> and \<^verbatim>\<open>length\<close> at the end of the \<^verbatim>\<open>switch\<close>,
  the system buffer once it was retrieved, the state of the bus and the calls made.
\<close>

record ('s, 'p) locals =
  status :: NTSTATUS
  len :: nat
  sysbuf :: "io_buffer option"
  state :: 's
  trace :: "'p event list"

section \<open>The dispatcher\<close>

text \<open>\<^verbatim>\<open>case IOCTL_VIGEM_CHECK_VERSION\<close>.\<close>

definition case_CHECK_VERSION ::
  "build_constants \<Rightarrow> ('s, 'p, 'r) collaborators \<Rightarrow> 'r \<Rightarrow> 's \<Rightarrow> ('s, 'p) locals" where
  "case_CHECK_VERSION k env Request s =
     (case WdfRequestRetrieveInputBuffer env Request (sizeof_VIGEM_CHECK_VERSION k) of
        (st, pCheckVersion, n) \<Rightarrow>
          if \<not> NT_SUCCESS st \<or> n \<noteq> sizeof_VIGEM_CHECK_VERSION k
          then \<lparr>status = STATUS_INVALID_PARAMETER, len = n, sysbuf = None, state = s,
                trace = [Call_RetrieveInputBuffer (sizeof_VIGEM_CHECK_VERSION k)]\<rparr>
          else \<lparr>status = (if Version pCheckVersion = VIGEM_COMMON_VERSION k
                          then STATUS_SUCCESS else STATUS_NOT_SUPPORTED),
                len = n, sysbuf = Some pCheckVersion, state = s,
                trace = [Call_RetrieveInputBuffer (sizeof_VIGEM_CHECK_VERSION k)]\<rparr>)"

text \<open>\<^verbatim>\<open>case IOCTL_VIGEM_PLUGIN_TARGET\<close> and \<^verbatim>\<open>case IOCTL_VIGEM_UNPLUG_TARGET\<close>.\<close>

definition case_PLUGIN_TARGET ::
  "('s, 'p, 'r) collaborators \<Rightarrow> 'r \<Rightarrow> 's \<Rightarrow> ('s, 'p) locals" where
  "case_PLUGIN_TARGET env Request s =
     (case Bus_PlugInDevice env Request s of
        ((st, n), s') \<Rightarrow>
          \<lparr>status = st, len = n, sysbuf = None, state = s', trace = [Call_PlugInDevice]\<rparr>)"

definition case_UNPLUG_TARGET ::
  "('s, 'p, 'r) collaborators \<Rightarrow> 'r \<Rightarrow> 's \<Rightarrow> ('s, 'p) locals" where
  "case_UNPLUG_TARGET env Request s =
     (case Bus_UnPlugDevice env Request s of
        ((st, n), s') \<Rightarrow>
          \<lparr>status = st, len = n, sysbuf = None, state = s', trace = [Call_UnPlugDevice]\<rparr>)"

text \<open>
  \<^verbatim>\<open>case IOCTL_XUSB_SUBMIT_REPORT\<close> and \<^verbatim>\<open>case IOCTL_DS4_SUBMIT_REPORT\<close>: the same
  text in the source but for the structure (its size \<open>sz\<close>) and the target type \<open>ty\<close>.
  When the size comparison fails the body of the \<^verbatim>\<open>if\<close> is skipped and \<^verbatim>\<open>status\<close>
  keeps what \<^verbatim>\<open>WdfRequestRetrieveInputBuffer\<close> returned.
\<close>

definition case_SUBMIT_REPORT ::
  "nat \<Rightarrow> VIGEM_TARGET_TYPE \<Rightarrow> ('s, 'p, 'r) collaborators \<Rightarrow> 'r \<Rightarrow> nat \<Rightarrow> 's
     \<Rightarrow> ('s, 'p) locals" where
  "case_SUBMIT_REPORT sz ty env Request InputBufferLength s =
     (case WdfRequestRetrieveInputBuffer env Request sz of
        (st, submit, n) \<Rightarrow>
          if \<not> NT_SUCCESS st
          then \<lparr>status = st, len = n, sysbuf = None, state = s,
                trace = [Call_RetrieveInputBuffer sz]\<rparr>
          else if sz = unat (Size submit) \<and> n = InputBufferLength
          then
            if SerialNo submit = 0
            then \<lparr>status = STATUS_INVALID_PARAMETER, len = n, sysbuf = Some submit, state = s,
                  trace = [Call_RetrieveInputBuffer sz]\<rparr>
            else
              (case GetPdoByTypeAndSerial env ty (SerialNo submit) s of
                 (None, s1) \<Rightarrow>
                   \<lparr>status = STATUS_DEVICE_DOES_NOT_EXIST, len = n, sysbuf = Some submit,
                    state = s1,
                    trace = [Call_RetrieveInputBuffer sz,
                             Call_GetPdoByTypeAndSerial ty (SerialNo submit)]\<rparr>
               | (Some pdo, s1) \<Rightarrow>
                   (case SubmitReport env pdo submit s1 of
                      (st2, s2) \<Rightarrow>
                        \<lparr>status = st2, len = n, sysbuf = Some submit, state = s2,
                         trace = [Call_RetrieveInputBuffer sz,
                                  Call_GetPdoByTypeAndSerial ty (SerialNo submit),
                                  Call_SubmitReport pdo]\<rparr>))
          else \<lparr>status = st, len = n, sysbuf = Some submit, state = s,
                trace = [Call_RetrieveInputBuffer sz]\<rparr>)"

text \<open>
  \<^verbatim>\<open>case IOCTL_XUSB_REQUEST_NOTIFICATION\<close> and \<^verbatim>\<open>case IOCTL_DS4_REQUEST_NOTIFICATION\<close>.
  The first \<^verbatim>\<open>break\<close> leaves \<^verbatim>\<open>status\<close> and \<^verbatim>\<open>length\<close> at their initial values.
\<close>

definition case_REQUEST_NOTIFICATION ::
  "nat \<Rightarrow> VIGEM_TARGET_TYPE \<Rightarrow> ('s, 'p, 'r) collaborators \<Rightarrow> 'r \<Rightarrow> nat \<Rightarrow> nat \<Rightarrow> 's
     \<Rightarrow> ('s, 'p) locals" where
  "case_REQUEST_NOTIFICATION sz ty env Request OutputBufferLength InputBufferLength s =
     (if OutputBufferLength < sz
      then \<lparr>status = STATUS_INVALID_PARAMETER, len = 0, sysbuf = None, state = s, trace = []\<rparr>
      else
        (case WdfRequestRetrieveInputBuffer env Request sz of
           (st, notify, n) \<Rightarrow>
             if \<not> NT_SUCCESS st
             then \<lparr>status = st, len = n, sysbuf = None, state = s,
                   trace = [Call_RetrieveInputBuffer sz]\<rparr>
             else if sz = unat (Size notify) \<and> n = InputBufferLength
             then
               if SerialNo notify = 0
               then \<lparr>status = STATUS_INVALID_PARAMETER, len = n, sysbuf = Some notify,
                     state = s, trace = [Call_RetrieveInputBuffer sz]\<rparr>
               else
                 (case GetPdoByTypeAndSerial env ty (SerialNo notify) s of
                    (None, s1) \<Rightarrow>
                      \<lparr>status = STATUS_DEVICE_DOES_NOT_EXIST, len = n, sysbuf = Some notify,
                       state = s1,
                       trace = [Call_RetrieveInputBuffer sz,
                                Call_GetPdoByTypeAndSerial ty (SerialNo notify)]\<rparr>
                  | (Some pdo, s1) \<Rightarrow>
                      (case EnqueueNotification env pdo Request s1 of
                         (st2, s2) \<Rightarrow>
                           \<lparr>status = (if NT_SUCCESS st2 then STATUS_PENDING else st2),
                            len = n, sysbuf = Some notify, state = s2,
                            trace = [Call_RetrieveInputBuffer sz,
                                     Call_GetPdoByTypeAndSerial ty (SerialNo notify),
                                     Call_EnqueueNotification pdo]\<rparr>))
             else \<lparr>status = st, len = n, sysbuf = Some notify, state = s,
                   trace = [Call_RetrieveInputBuffer sz]\<rparr>))"

text \<open>
  \<^verbatim>\<open>case IOCTL_XUSB_GET_USER_INDEX\<close>. \<^verbatim>\<open>GetUserIndex\<close> is given the address of the
  \<^verbatim>\<open>UserIndex\<close> field of the system buffer, so what it stores lands in that field.
\<close>

definition case_GET_USER_INDEX ::
  "build_constants \<Rightarrow> ('s, 'p, 'r) collaborators \<Rightarrow> 'r \<Rightarrow> nat \<Rightarrow> nat \<Rightarrow> 's
     \<Rightarrow> ('s, 'p) locals" where
  "case_GET_USER_INDEX k env Request OutputBufferLength InputBufferLength s =
     (if OutputBufferLength < sizeof_XUSB_GET_USER_INDEX k
      then \<lparr>status = STATUS_INVALID_PARAMETER, len = 0, sysbuf = None, state = s, trace = []\<rparr>
      else
        (case WdfRequestRetrieveInputBuffer env Request (sizeof_XUSB_GET_USER_INDEX k) of
           (st, pXusbGetUserIndex, n) \<Rightarrow>
             if \<not> NT_SUCCESS st
             then \<lparr>status = st, len = n, sysbuf = None, state = s,
                   trace = [Call_RetrieveInputBuffer (sizeof_XUSB_GET_USER_INDEX k)]\<rparr>
             else if sizeof_XUSB_GET_USER_INDEX k = unat (Size pXusbGetUserIndex)
                       \<and> n = InputBufferLength
             then
               if SerialNo pXusbGetUserIndex = 0
               then \<lparr>status = STATUS_INVALID_PARAMETER, len = n,
                     sysbuf = Some pXusbGetUserIndex, state = s,
                     trace = [Call_RetrieveInputBuffer (sizeof_XUSB_GET_USER_INDEX k)]\<rparr>
               else
                 (case GetPdoByTypeAndSerial env Xbox360Wired (SerialNo pXusbGetUserIndex) s of
                    (None, s1) \<Rightarrow>
                      \<lparr>status = STATUS_DEVICE_DOES_NOT_EXIST, len = n,
                       sysbuf = Some pXusbGetUserIndex, state = s1,
                       trace = [Call_RetrieveInputBuffer (sizeof_XUSB_GET_USER_INDEX k),
                                Call_GetPdoByTypeAndSerial Xbox360Wired
                                  (SerialNo pXusbGetUserIndex)]\<rparr>
                  | (Some pdo, s1) \<Rightarrow>
                      (case GetUserIndex env pdo s1 of
                         ((st2, stored), s2) \<Rightarrow>
                           \<lparr>status = st2, len = n,
                            sysbuf = Some (case stored of
                                             None \<Rightarrow> pXusbGetUserIndex
                                           | Some v \<Rightarrow> pXusbGetUserIndex\<lparr>UserIndex := v\<rparr>),
                            state = s2,
                            trace = [Call_RetrieveInputBuffer (sizeof_XUSB_GET_USER_INDEX k),
                                     Call_GetPdoByTypeAndSerial Xbox360Wired
                                       (SerialNo pXusbGetUserIndex),
                                     Call_GetUserIndex pdo]\<rparr>))
             else \<lparr>status = st, len = n, sysbuf = Some pXusbGetUserIndex, state = s,
                   trace = [Call_RetrieveInputBuffer (sizeof_XUSB_GET_USER_INDEX k)]\<rparr>))"

text \<open>
  The \<^verbatim>\<open>switch\<close> of \<^verbatim>\<open>Bus_EvtIoDeviceControl\<close>, its cases in the order of the source.
  \<^verbatim>\<open>default\<close> leaves the initial \<^verbatim>\<open>status = STATUS_INVALID_PARAMETER\<close> and
  \<^verbatim>\<open>length = 0\<close>.
\<close>

definition Bus_EvtIoDeviceControl_switch ::
  "build_constants \<Rightarrow> ('s, 'p, 'r) collaborators \<Rightarrow> 'r \<Rightarrow> nat \<Rightarrow> nat \<Rightarrow> ULONG \<Rightarrow> 's
     \<Rightarrow> ('s, 'p) locals" where
  "Bus_EvtIoDeviceControl_switch k env Request OutputBufferLength InputBufferLength
       IoControlCode s =
     (if IoControlCode = IOCTL_VIGEM_CHECK_VERSION k then
        case_CHECK_VERSION k env Request s
      else if IoControlCode = IOCTL_VIGEM_PLUGIN_TARGET k then
        case_PLUGIN_TARGET env Request s
      else if IoControlCode = IOCTL_VIGEM_UNPLUG_TARGET k then
        case_UNPLUG_TARGET env Request s
      else if IoControlCode = IOCTL_XUSB_SUBMIT_REPORT k then
        case_SUBMIT_REPORT (sizeof_XUSB_SUBMIT_REPORT k) Xbox360Wired env Request
          InputBufferLength s
      else if IoControlCode = IOCTL_XUSB_REQUEST_NOTIFICATION k then
        case_REQUEST_NOTIFICATION (sizeof_XUSB_REQUEST_NOTIFICATION k) Xbox360Wired env Request
          OutputBufferLength InputBufferLength s
      else if IoControlCode = IOCTL_DS4_SUBMIT_REPORT k then
        case_SUBMIT_REPORT (sizeof_DS4_SUBMIT_REPORT k) DualShock4Wired env Request
          InputBufferLength s
      else if IoControlCode = IOCTL_DS4_REQUEST_NOTIFICATION k then
        case_REQUEST_NOTIFICATION (sizeof_DS4_REQUEST_NOTIFICATION k) DualShock4Wired env
          Request OutputBufferLength InputBufferLength s
      else if IoControlCode = IOCTL_XUSB_GET_USER_INDEX k then
        case_GET_USER_INDEX k env Request OutputBufferLength InputBufferLength s
      else
        \<lparr>status = STATUS_INVALID_PARAMETER, len = 0, sysbuf = None, state = s, trace = []\<rparr>)"

text \<open>
  \<^verbatim>\<open>Bus_EvtIoDeviceControl\<close>: the \<^verbatim>\<open>switch\<close>, then
  \<^verbatim>\<open>if (status != STATUS_PENDING) WdfRequestCompleteWithInformation(Request, status, length)\<close>.
\<close>

definition Bus_EvtIoDeviceControl ::
  "build_constants \<Rightarrow> ('s, 'p, 'r) collaborators \<Rightarrow> 'r \<Rightarrow> nat \<Rightarrow> nat \<Rightarrow> ULONG \<Rightarrow> 's
     \<Rightarrow> ('s, 'p) locals" where
  "Bus_EvtIoDeviceControl k env Request OutputBufferLength InputBufferLength IoControlCode s =
     (let r = Bus_EvtIoDeviceControl_switch k env Request OutputBufferLength InputBufferLength
                IoControlCode s
      in if status r \<noteq> STATUS_PENDING
         then r\<lparr>trace := trace r @ [Call_CompleteWithInformation (status r) (len r)]\<rparr>
         else r)"

section \<open>Vocabulary of the properties\<close>

text \<open>
  The five operations that address one target, with the case label, the structure size and
  the target type that \<^verbatim>\<open>Bus_EvtIoDeviceControl\<close> uses for each, and whether the
  case checks \<^verbatim>\<open>OutputBufferLength\<close> first.
\<close>

datatype target_op = XusbSubmit | XusbNotify | Ds4Submit | Ds4Notify | XusbGetUserIndex

fun op_code :: "build_constants \<Rightarrow> target_op \<Rightarrow> ULONG" where
  "op_code k XusbSubmit = IOCTL_XUSB_SUBMIT_REPORT k"
| "op_code k XusbNotify = IOCTL_XUSB_REQUEST_NOTIFICATION k"
| "op_code k Ds4Submit = IOCTL_DS4_SUBMIT_REPORT k"
| "op_code k Ds4Notify = IOCTL_DS4_REQUEST_NOTIFICATION k"
| "op_code k XusbGetUserIndex = IOCTL_XUSB_GET_USER_INDEX k"

fun op_size :: "build_constants \<Rightarrow> target_op \<Rightarrow> nat" where
  "op_size k XusbSubmit = sizeof_XUSB_SUBMIT_REPORT k"
| "op_size k XusbNotify = sizeof_XUSB_REQUEST_NOTIFICATION k"
| "op_size k Ds4Submit = sizeof_DS4_SUBMIT_REPORT k"
| "op_size k Ds4Notify = sizeof_DS4_REQUEST_NOTIFICATION k"
| "op_size k XusbGetUserIndex = sizeof_XUSB_GET_USER_INDEX k"

fun expected_type :: "target_op \<Rightarrow> VIGEM_TARGET_TYPE" where
  "expected_type XusbSubmit = Xbox360Wired"
| "expected_type XusbNotify = Xbox360Wired"
| "expected_type Ds4Submit = DualShock4Wired"
| "expected_type Ds4Notify = DualShock4Wired"
| "expected_type XusbGetUserIndex = Xbox360Wired"

fun expects_output :: "target_op \<Rightarrow> bool" where
  "expects_output XusbSubmit = False"
| "expects_output XusbNotify = True"
| "expects_output Ds4Submit = False"
| "expects_output Ds4Notify = True"
| "expects_output XusbGetUserIndex = True"

text \<open>The status, the buffer and the length that the framework gives for an operation.\<close>

definition retrieved_status ::
  "build_constants \<Rightarrow> ('s, 'p, 'r) collaborators \<Rightarrow> 'r \<Rightarrow> target_op \<Rightarrow> NTSTATUS" where
  "retrieved_status k env Request op =
     fst (WdfRequestRetrieveInputBuffer env Request (op_size k op))"

definition retrieved_buffer ::
  "build_constants \<Rightarrow> ('s, 'p, 'r) collaborators \<Rightarrow> 'r \<Rightarrow> target_op \<Rightarrow> io_buffer" where
  "retrieved_buffer k env Request op =
     fst (snd (WdfRequestRetrieveInputBuffer env Request (op_size k op)))"

definition retrieved_length ::
  "build_constants \<Rightarrow> ('s, 'p, 'r) collaborators \<Rightarrow> 'r \<Rightarrow> target_op \<Rightarrow> nat" where
  "retrieved_length k env Request op =
     snd (snd (WdfRequestRetrieveInputBuffer env Request (op_size k op)))"

text \<open>
  The size checks of an operation: the declared \<^verbatim>\<open>Size\<close> is the structure's size and
  the retrieved length is the length the transport supplied.
\<close>

definition size_checks_pass ::
  "build_constants \<Rightarrow> ('s, 'p, 'r) collaborators \<Rightarrow> 'r \<Rightarrow> nat \<Rightarrow> target_op \<Rightarrow> bool" where
  "size_checks_pass k env Request InputBufferLength op =
     (op_size k op = unat (Size (retrieved_buffer k env Request op))
      \<and> retrieved_length k env Request op = InputBufferLength)"

text \<open>Enough output capacity, for the operations that check it.\<close>

definition output_fits :: "build_constants \<Rightarrow> nat \<Rightarrow> target_op \<Rightarrow> bool" where
  "output_fits k OutputBufferLength op =
     (expects_output op \<longrightarrow> op_size k op \<le> OutputBufferLength)"

text \<open>An input that passes every check made before the registry is consulted.\<close>

definition validated ::
  "build_constants \<Rightarrow> ('s, 'p, 'r) collaborators \<Rightarrow> 'r \<Rightarrow> nat \<Rightarrow> nat \<Rightarrow> target_op \<Rightarrow> bool"
  where
  "validated k env Request OutputBufferLength InputBufferLength op =
     (output_fits k OutputBufferLength op
      \<and> NT_SUCCESS (retrieved_status k env Request op)
      \<and> size_checks_pass k env Request InputBufferLength op
      \<and> SerialNo (retrieved_buffer k env Request op) \<noteq> 0)"

text \<open>Kinds of calls in a trace.\<close>

fun is_lookup :: "'p event \<Rightarrow> bool" where
  "is_lookup (Call_GetPdoByTypeAndSerial t n) = True"
| "is_lookup e = False"

fun is_retrieval :: "'p event \<Rightarrow> bool" where
  "is_retrieval (Call_RetrieveInputBuffer n) = True"
| "is_retrieval e = False"

fun is_completion :: "'p event \<Rightarrow> bool" where
  "is_completion (Call_CompleteWithInformation st n) = True"
| "is_completion e = False"

fun touches_bus :: "'p event \<Rightarrow> bool" where
  "touches_bus (Call_RetrieveInputBuffer n) = False"
| "touches_bus (Call_CompleteWithInformation st n) = False"
| "touches_bus e = True"

text \<open>
  Modelled from the spec: \<^verbatim>\<open>Bus_PlugInDevice\<close> and \<^verbatim>\<open>Bus_UnPlugDevice\<close>, which
  \<^verbatim>\<open>Queue.cpp\<close> calls and which are defined outside it, together with
  \<^verbatim>\<open>sizeof\<close> of their request structures \<open>sz\<close>. The spec (4.1, steps 1, 2 and 4;
  section 3; section 6; section 7) has every operation validated before any registry or
  target state is touched: the input buffer is present and at least as large as the
  structure of the operation; the declared size equals the structure's size and the length
  supplied by the transport; serial 0 is reserved and rejected; each failure is
  \<^verbatim>\<open>InvalidParameter\<close>. Only then does the registry operation of 4.2 run
  (\<open>PlugIn\<close>, \<open>Unplug\<close>: parameters, each returning a status and the new state). A
  plug-in or unplug has no output, so the length is 0.
\<close>

definition spec_Bus_PlugInDevice ::
  "('r \<Rightarrow> nat \<Rightarrow> NTSTATUS \<times> io_buffer \<times> nat) \<Rightarrow> nat \<Rightarrow> (io_buffer \<Rightarrow> 's \<Rightarrow> NTSTATUS \<times> 's)
     \<Rightarrow> 'r \<Rightarrow> 's \<Rightarrow> (NTSTATUS \<times> nat) \<times> 's" where
  "spec_Bus_PlugInDevice retrieve sz PlugIn Request s =
     (case retrieve Request sz of
        (st, plugIn, n) \<Rightarrow>
          if \<not> NT_SUCCESS st then ((STATUS_INVALID_PARAMETER, 0), s)
          else if sz \<noteq> unat (Size plugIn) \<or> n \<noteq> unat (Size plugIn)
          then ((STATUS_INVALID_PARAMETER, 0), s)
          else if SerialNo plugIn = 0 then ((STATUS_INVALID_PARAMETER, 0), s)
          else (case PlugIn plugIn s of (st2, s2) \<Rightarrow> ((st2, 0), s2)))"

text \<open>
  Modelled from the spec: \<^verbatim>\<open>Bus_UnPlugDevice\<close>, the same validation in front of the
  registry's \<open>Unplug\<close>.
\<close>

definition spec_Bus_UnPlugDevice ::
  "('r \<Rightarrow> nat \<Rightarrow> NTSTATUS \<times> io_buffer \<times> nat) \<Rightarrow> nat \<Rightarrow> (io_buffer \<Rightarrow> 's \<Rightarrow> NTSTATUS \<times> 's)
     \<Rightarrow> 'r \<Rightarrow> 's \<Rightarrow> (NTSTATUS \<times> nat) \<times> 's" where
  "spec_Bus_UnPlugDevice retrieve sz Unplug Request s =
     (case retrieve Request sz of
        (st, unPlug, n) \<Rightarrow>
          if \<not> NT_SUCCESS st then ((STATUS_INVALID_PARAMETER, 0), s)
          else if sz \<noteq> unat (Size unPlug) \<or> n \<noteq> unat (Size unPlug)
          then ((STATUS_INVALID_PARAMETER, 0), s)
          else if SerialNo unPlug = 0 then ((STATUS_INVALID_PARAMETER, 0), s)
          else (case Unplug unPlug s of (st2, s2) \<Rightarrow> ((st2, 0), s2)))"

text \<open>
  A request on which a validation check fails: an unknown code; a version check whose buffer
  is not retrieved or has the wrong length; an operation on a target with too little output
  capacity, a buffer that is not retrieved, a wrong \<^verbatim>\<open>Size\<close>, a wrong length or
  serial 0; a plug-in or unplug (structure sizes \<open>szP\<close>, \<open>szU\<close>) whose buffer is not
  retrieved or has a wrong \<^verbatim>\<open>Size\<close>, a wrong length or serial 0.
\<close>

definition target_check_fails ::
  "build_constants \<Rightarrow> ('s, 'p, 'r) collaborators \<Rightarrow> 'r \<Rightarrow> nat \<Rightarrow> nat \<Rightarrow> target_op \<Rightarrow> bool"
  where
  "target_check_fails k env Request OutputBufferLength InputBufferLength op =
     (\<not> validated k env Request OutputBufferLength InputBufferLength op)"

definition version_check_fails ::
  "build_constants \<Rightarrow> ('s, 'p, 'r) collaborators \<Rightarrow> 'r \<Rightarrow> bool" where
  "version_check_fails k env Request =
     (case WdfRequestRetrieveInputBuffer env Request (sizeof_VIGEM_CHECK_VERSION k) of
        (st, buf, n) \<Rightarrow> \<not> NT_SUCCESS st \<or> n \<noteq> sizeof_VIGEM_CHECK_VERSION k)"

definition registry_check_fails ::
  "('s, 'p, 'r) collaborators \<Rightarrow> nat \<Rightarrow> 'r \<Rightarrow> bool" where
  "registry_check_fails env sz Request =
     (case WdfRequestRetrieveInputBuffer env Request sz of
        (st, buf, n) \<Rightarrow>
          \<not> NT_SUCCESS st \<or> sz \<noteq> unat (Size buf) \<or> n \<noteq> unat (Size buf) \<or> SerialNo buf = 0)"

definition validation_fails ::
  "build_constants \<Rightarrow> ('s, 'p, 'r) collaborators \<Rightarrow> nat \<Rightarrow> nat \<Rightarrow> 'r \<Rightarrow> nat \<Rightarrow> nat \<Rightarrow> ULONG
     \<Rightarrow> bool" where
  "validation_fails k env szP szU Request OutputBufferLength InputBufferLength IoControlCode =
     (IoControlCode \<notin> set (case_labels k)
      \<or> (IoControlCode = IOCTL_VIGEM_CHECK_VERSION k \<and> version_check_fails k env Request)
      \<or> (IoControlCode = IOCTL_VIGEM_PLUGIN_TARGET k \<and> registry_check_fails env szP Request)
      \<or> (IoControlCode = IOCTL_VIGEM_UNPLUG_TARGET k \<and> registry_check_fails env szU Request)
      \<or> list_ex (\<lambda>op. IoControlCode = op_code k op
                       \<and> target_check_fails k env Request OutputBufferLength
                            InputBufferLength op)
           [XusbSubmit, XusbNotify, Ds4Submit, Ds4Notify, XusbGetUserIndex])"

text \<open>The same request sent \<open>m\<close> times in a row; the state after the last one.\<close>

fun repeated ::
  "nat \<Rightarrow> build_constants \<Rightarrow> ('s, 'p, 'r) collaborators \<Rightarrow> 'r \<Rightarrow> nat \<Rightarrow> nat \<Rightarrow> ULONG \<Rightarrow> 's
     \<Rightarrow> 's" where
  "repeated 0 k env Request OutputBufferLength InputBufferLength IoControlCode s = s"
| "repeated (Suc m) k env Request OutputBufferLength InputBufferLength IoControlCode s =
     repeated m k env Request OutputBufferLength InputBufferLength IoControlCode
       (state (Bus_EvtIoDeviceControl k env Request OutputBufferLength InputBufferLength
                 IoControlCode s))"

section \<open>A sample bus\<close>

text \<open>
  Sample constants and collaborators on which the theorems below are instantiated. Any
  pairwise different case labels do; these follow the \<^verbatim>\<open>CTL_CODE\<close> scheme of a bus
  extender. The sample bus keeps the plugged targets, the targets with a parked
  notification and the number of reports taken; a target object is its (type, serial). Its
  plug-in and unplug are the ones modelled above, for structures of 16 and 8 bytes, over a
  registry that plugs and unplugs Xbox 360 targets.
\<close>

definition sample_constants :: build_constants where
  "sample_constants =
     \<lparr>IOCTL_VIGEM_CHECK_VERSION = 0x2AA00C,
      IOCTL_VIGEM_PLUGIN_TARGET = 0x2AA004,
      IOCTL_VIGEM_UNPLUG_TARGET = 0x2AA008,
      IOCTL_XUSB_SUBMIT_REPORT = 0x2AA808,
      IOCTL_XUSB_REQUEST_NOTIFICATION = 0x2AE804,
      IOCTL_DS4_SUBMIT_REPORT = 0x2AA80C,
      IOCTL_DS4_REQUEST_NOTIFICATION = 0x2AE810,
      IOCTL_XUSB_GET_USER_INDEX = 0x2AE81C,
      sizeof_VIGEM_CHECK_VERSION = 8,
      sizeof_XUSB_SUBMIT_REPORT = 20,
      sizeof_XUSB_REQUEST_NOTIFICATION = 12,
      sizeof_DS4_SUBMIT_REPORT = 20,
      sizeof_DS4_REQUEST_NOTIFICATION = 16,
      sizeof_XUSB_GET_USER_INDEX = 12,
      VIGEM_COMMON_VERSION = 1\<rparr>"

record sample_request =
  rq_buffer :: io_buffer
  rq_length :: nat

record sample_bus =
  plugged :: "(VIGEM_TARGET_TYPE \<times> ULONG) list"
  parked :: "(VIGEM_TARGET_TYPE \<times> ULONG) list"
  reports :: nat

definition STATUS_OBJECT_NAME_COLLISION :: NTSTATUS where
  "STATUS_OBJECT_NAME_COLLISION = 0xC0000035"

definition sample_retrieval :: "sample_request \<Rightarrow> nat \<Rightarrow> NTSTATUS \<times> io_buffer \<times> nat" where
  "sample_retrieval r n =
     (if rq_length r < n then (STATUS_BUFFER_TOO_SMALL, rq_buffer r, 0)
      else (STATUS_SUCCESS, rq_buffer r, rq_length r))"

definition sample_PlugIn :: "io_buffer \<Rightarrow> sample_bus \<Rightarrow> NTSTATUS \<times> sample_bus" where
  "sample_PlugIn b s =
     (if (Xbox360Wired, SerialNo b) \<in> set (plugged s) then (STATUS_OBJECT_NAME_COLLISION, s)
      else (STATUS_SUCCESS, s\<lparr>plugged := (Xbox360Wired, SerialNo b) # plugged s\<rparr>))"

definition sample_Unplug :: "io_buffer \<Rightarrow> sample_bus \<Rightarrow> NTSTATUS \<times> sample_bus" where
  "sample_Unplug b s =
     (if (Xbox360Wired, SerialNo b) \<in> set (plugged s)
      then (STATUS_SUCCESS,
            s\<lparr>plugged := removeAll (Xbox360Wired, SerialNo b) (plugged s)\<rparr>)
      else (STATUS_DEVICE_DOES_NOT_EXIST, s))"

definition sample_env ::
  "(sample_bus, VIGEM_TARGET_TYPE \<times> ULONG, sample_request) collaborators" where
  "sample_env =
     \<lparr>WdfRequestRetrieveInputBuffer = sample_retrieval,
      GetPdoByTypeAndSerial =
        (\<lambda>t n s. (if (t, n) \<in> set (plugged s) then Some (t, n) else None, s)),
      SubmitReport = (\<lambda>p b s. (STATUS_SUCCESS, s\<lparr>reports := Suc (reports s)\<rparr>)),
      EnqueueNotification =
        (\<lambda>p r s. if p \<in> set (parked s) then (STATUS_DEVICE_BUSY, s)
                  else (STATUS_SUCCESS, s\<lparr>parked := p # parked s\<rparr>)),
      GetUserIndex = (\<lambda>p s. ((STATUS_SUCCESS, Some (snd p - 1)), s)),
      Bus_PlugInDevice = spec_Bus_PlugInDevice sample_retrieval 16 sample_PlugIn,
      Bus_UnPlugDevice = spec_Bus_UnPlugDevice sample_retrieval 8 sample_Unplug\<rparr>"

text \<open>
  A bus with an Xbox 360 target of serial 1 and a DualShock 4 target of serial 7, and the
  same bus with a notification already parked on the first.
\<close>

definition sample_state :: sample_bus where
  "sample_state =
     \<lparr>plugged = [(Xbox360Wired, 1), (DualShock4Wired, 7)], parked = [], reports = 0\<rparr>"

definition sample_state_parked :: sample_bus where
  "sample_state_parked =
     \<lparr>plugged = [(Xbox360Wired, 1), (DualShock4Wired, 7)], parked = [(Xbox360Wired, 1)],
      reports = 0\<rparr>"

text \<open>
  A request whose buffer has the given length, \<^verbatim>\<open>Size\<close>, version and serial; the
  \<^verbatim>\<open>UserIndex\<close> field holds whatever the client left there.
\<close>

definition sample_req :: "nat \<Rightarrow> ULONG \<Rightarrow> ULONG \<Rightarrow> ULONG \<Rightarrow> sample_request" where
  "sample_req n sz v serial =
     \<lparr>rq_buffer = \<lparr>Size = sz, Version = v, SerialNo = serial, UserIndex = 0xFFFFFFFF,
                    Payload = []\<rparr>,
      rq_length = n\<rparr>"

section \<open>Status codes\<close>

lemma NT_SUCCESS_simps:
  "NT_SUCCESS STATUS_SUCCESS" "NT_SUCCESS STATUS_PENDING"
  "\<not> NT_SUCCESS STATUS_INVALID_PARAMETER" "\<not> NT_SUCCESS STATUS_BUFFER_TOO_SMALL"
  "\<not> NT_SUCCESS STATUS_NOT_SUPPORTED" "\<not> NT_SUCCESS STATUS_DEVICE_DOES_NOT_EXIST"
  "\<not> NT_SUCCESS STATUS_DEVICE_BUSY"
  by (simp_all add: NT_SUCCESS_def STATUS_SUCCESS_def STATUS_PENDING_def
      STATUS_INVALID_PARAMETER_def STATUS_BUFFER_TOO_SMALL_def STATUS_NOT_SUPPORTED_def
      STATUS_DEVICE_DOES_NOT_EXIST_def STATUS_DEVICE_BUSY_def)

lemma status_codes_differ:
  "STATUS_INVALID_PARAMETER \<noteq> STATUS_PENDING" "STATUS_DEVICE_DOES_NOT_EXIST \<noteq> STATUS_PENDING"
  "STATUS_SUCCESS \<noteq> STATUS_PENDING" "STATUS_NOT_SUPPORTED \<noteq> STATUS_PENDING"
  "STATUS_SUCCESS \<noteq> STATUS_NOT_SUPPORTED" "STATUS_SUCCESS \<noteq> STATUS_INVALID_PARAMETER"
  "STATUS_DEVICE_BUSY \<noteq> STATUS_PENDING"
  by (simp_all add: STATUS_SUCCESS_def STATUS_PENDING_def STATUS_INVALID_PARAMETER_def
      STATUS_NOT_SUPPORTED_def STATUS_DEVICE_DOES_NOT_EXIST_def STATUS_DEVICE_BUSY_def)

lemma failure_is_not_pending: "\<not> NT_SUCCESS st \<Longrightarrow> st \<noteq> STATUS_PENDING"
  using NT_SUCCESS_simps(2) by blast

lemma success_is_not_invalid_parameter: "NT_SUCCESS st \<Longrightarrow> st \<noteq> STATUS_INVALID_PARAMETER"
  using NT_SUCCESS_simps(3) by blast

section \<open>Which case the switch takes\<close>

lemma switch_CHECK_VERSION:
  "Bus_EvtIoDeviceControl_switch k env r out inl (IOCTL_VIGEM_CHECK_VERSION k) s =
     case_CHECK_VERSION k env r s"
  by (simp add: Bus_EvtIoDeviceControl_switch_def)

lemma switch_target_op:
  assumes "distinct (case_labels k)"
  shows "Bus_EvtIoDeviceControl_switch k env r out inl (IOCTL_XUSB_SUBMIT_REPORT k) s =
           case_SUBMIT_REPORT (sizeof_XUSB_SUBMIT_REPORT k) Xbox360Wired env r inl s"
    and "Bus_EvtIoDeviceControl_switch k env r out inl (IOCTL_XUSB_REQUEST_NOTIFICATION k) s =
           case_REQUEST_NOTIFICATION (sizeof_XUSB_REQUEST_NOTIFICATION k) Xbox360Wired env r
             out inl s"
    and "Bus_EvtIoDeviceControl_switch k env r out inl (IOCTL_DS4_SUBMIT_REPORT k) s =
           case_SUBMIT_REPORT (sizeof_DS4_SUBMIT_REPORT k) DualShock4Wired env r inl s"
    and "Bus_EvtIoDeviceControl_switch k env r out inl (IOCTL_DS4_REQUEST_NOTIFICATION k) s =
           case_REQUEST_NOTIFICATION (sizeof_DS4_REQUEST_NOTIFICATION k) DualShock4Wired env r
             out inl s"
    and "Bus_EvtIoDeviceControl_switch k env r out inl (IOCTL_XUSB_GET_USER_INDEX k) s =
           case_GET_USER_INDEX k env r out inl s"
  using assms by (auto simp: Bus_EvtIoDeviceControl_switch_def case_labels_def)

lemma switch_registry_op:
  assumes "distinct (case_labels k)"
  shows "Bus_EvtIoDeviceControl_switch k env r out inl (IOCTL_VIGEM_PLUGIN_TARGET k) s =
           case_PLUGIN_TARGET env r s"
    and "Bus_EvtIoDeviceControl_switch k env r out inl (IOCTL_VIGEM_UNPLUG_TARGET k) s =
           case_UNPLUG_TARGET env r s"
  using assms by (auto simp: Bus_EvtIoDeviceControl_switch_def case_labels_def)

lemma switch_default:
  assumes "c \<notin> set (case_labels k)"
  shows "Bus_EvtIoDeviceControl_switch k env r out inl c s =
     \<lparr>status = STATUS_INVALID_PARAMETER, len = 0, sysbuf = None, state = s, trace = []\<rparr>"
  using assms by (simp add: Bus_EvtIoDeviceControl_switch_def case_labels_def)

lemma sample_labels_distinct: "distinct (case_labels sample_constants)"
  by (simp add: case_labels_def sample_constants_def)

lemmas case_defs =
  case_SUBMIT_REPORT_def case_REQUEST_NOTIFICATION_def case_GET_USER_INDEX_def

lemmas vocab_defs =
  validated_def output_fits_def size_checks_pass_def retrieved_status_def
  retrieved_buffer_def retrieved_length_def

lemma case_SUBMIT_REPORT_no_completion:
  "filter is_completion (trace (case_SUBMIT_REPORT sz ty env r inl s)) = []"
  by (simp add: case_SUBMIT_REPORT_def split: prod.splits option.splits)

lemma case_REQUEST_NOTIFICATION_no_completion:
  "filter is_completion (trace (case_REQUEST_NOTIFICATION sz ty env r out inl s)) = []"
  by (simp add: case_REQUEST_NOTIFICATION_def split: prod.splits option.splits)

lemma case_GET_USER_INDEX_no_completion:
  "filter is_completion (trace (case_GET_USER_INDEX k env r out inl s)) = []"
  by (simp add: case_GET_USER_INDEX_def split: prod.splits option.splits)

lemma registry_cases_no_completion:
  "filter is_completion (trace (case_CHECK_VERSION k env r s)) = []"
  "filter is_completion (trace (case_PLUGIN_TARGET env r s)) = []"
  "filter is_completion (trace (case_UNPLUG_TARGET env r s)) = []"
  by (simp_all add: case_CHECK_VERSION_def case_PLUGIN_TARGET_def case_UNPLUG_TARGET_def
      split: prod.splits)

lemma switch_has_no_completion:
  "filter is_completion (trace (Bus_EvtIoDeviceControl_switch k env r out inl c s)) = []"
  by (simp add: Bus_EvtIoDeviceControl_switch_def case_SUBMIT_REPORT_no_completion
      case_REQUEST_NOTIFICATION_no_completion case_GET_USER_INDEX_no_completion
      registry_cases_no_completion)

section \<open>The sample bus, evaluated\<close>

lemma sample_retrieve:
  "WdfRequestRetrieveInputBuffer sample_env (sample_req n sz v serial) m =
     (if n < m then (STATUS_BUFFER_TOO_SMALL, rq_buffer (sample_req n sz v serial), 0)
      else (STATUS_SUCCESS, rq_buffer (sample_req n sz v serial), n))"
  by (simp add: sample_env_def sample_retrieval_def sample_req_def)

lemma sample_req_fields:
  "Size (rq_buffer (sample_req n sz v serial)) = sz"
  "Version (rq_buffer (sample_req n sz v serial)) = v"
  "SerialNo (rq_buffer (sample_req n sz v serial)) = serial"
  "UserIndex (rq_buffer (sample_req n sz v serial)) = 0xFFFFFFFF"
  by (simp_all add: sample_req_def)

lemma sample_sizes:
  "sizeof_VIGEM_CHECK_VERSION sample_constants = 8"
  "sizeof_XUSB_SUBMIT_REPORT sample_constants = 20"
  "sizeof_XUSB_REQUEST_NOTIFICATION sample_constants = 12"
  "sizeof_DS4_SUBMIT_REPORT sample_constants = 20"
  "sizeof_DS4_REQUEST_NOTIFICATION sample_constants = 16"
  "sizeof_XUSB_GET_USER_INDEX sample_constants = 12"
  by (simp_all add: sample_constants_def)

lemma sample_lookup:
  "GetPdoByTypeAndSerial sample_env t n s =
     (if (t, n) \<in> set (plugged s) then Some (t, n) else None, s)"
  by (simp add: sample_env_def)

lemma sample_enqueue:
  "EnqueueNotification sample_env p r s =
     (if p \<in> set (parked s) then (STATUS_DEVICE_BUSY, s)
      else (STATUS_SUCCESS, s\<lparr>parked := p # parked s\<rparr>))"
  by (simp add: sample_env_def)

lemma sample_submit:
  "SubmitReport sample_env p b s = (STATUS_SUCCESS, s\<lparr>reports := Suc (reports s)\<rparr>)"
  by (simp add: sample_env_def)

lemma sample_plug_unplug:
  "Bus_PlugInDevice sample_env =
     spec_Bus_PlugInDevice (WdfRequestRetrieveInputBuffer sample_env) 16 sample_PlugIn"
  "Bus_UnPlugDevice sample_env =
     spec_Bus_UnPlugDevice (WdfRequestRetrieveInputBuffer sample_env) 8 sample_Unplug"
  by (simp_all add: sample_env_def)

lemma sample_get_user_index:
  "GetUserIndex sample_env p s = ((STATUS_SUCCESS, Some (snd p - 1)), s)"
  by (simp add: sample_env_def)

lemma sample_plugged:
  "plugged sample_state = [(Xbox360Wired, 1), (DualShock4Wired, 7)]"
  "plugged sample_state_parked = [(Xbox360Wired, 1), (DualShock4Wired, 7)]"
  "parked sample_state = []"
  "parked sample_state_parked = [(Xbox360Wired, 1)]"
  by (simp_all add: sample_state_def sample_state_parked_def)

lemma sample_retrieved:
  "retrieved_status sample_constants sample_env (sample_req n sz v serial) op =
     (if n < op_size sample_constants op then STATUS_BUFFER_TOO_SMALL else STATUS_SUCCESS)"
  "retrieved_buffer sample_constants sample_env (sample_req n sz v serial) op =
     rq_buffer (sample_req n sz v serial)"
  "retrieved_length sample_constants sample_env (sample_req n sz v serial) op =
     (if n < op_size sample_constants op then 0 else n)"
  by (simp_all add: retrieved_status_def retrieved_buffer_def retrieved_length_def
      sample_retrieve)

section \<open>Properties of the dispatcher\<close>

text \<open>
  C7. An operation code that is none of the eight case labels is answered with
  \<^verbatim>\<open>STATUS_INVALID_PARAMETER\<close> and length 0; the only call the dispatcher makes is the
  completion of the request, and the state of the bus is the one it started in.
\<close>

theorem unknown_code_is_invalid_parameter:
  assumes "IoControlCode \<notin> set (case_labels k)"
  shows "Bus_EvtIoDeviceControl k env Request out inl IoControlCode s =
     \<lparr>status = STATUS_INVALID_PARAMETER, len = 0, sysbuf = None, state = s,
      trace = [Call_CompleteWithInformation STATUS_INVALID_PARAMETER 0]\<rparr>"
  using assms
  by (simp add: Bus_EvtIoDeviceControl_def switch_default status_codes_differ)

theorem unknown_code_is_invalid_parameter_witness:
  "(0x2AA000 :: ULONG) \<notin> set (case_labels sample_constants)
   \<and> Bus_EvtIoDeviceControl sample_constants sample_env (sample_req 20 20 1 1) 16 20 0x2AA000
       sample_state =
     \<lparr>status = STATUS_INVALID_PARAMETER, len = 0, sysbuf = None, state = sample_state,
      trace = [Call_CompleteWithInformation STATUS_INVALID_PARAMETER 0]\<rparr>"
proof -
  have a: "(0x2AA000 :: ULONG) \<notin> set (case_labels sample_constants)"
    by (simp add: case_labels_def sample_constants_def)
  from a unknown_code_is_invalid_parameter
    [OF a, of sample_env "sample_req 20 20 1 1" 16 20 sample_state]
  show ?thesis by blast
qed

text \<open>
  C3. A version check whose input buffer is retrieved with the length of
  \<^verbatim>\<open>VIGEM_CHECK_VERSION\<close> returns \<^verbatim>\<open>STATUS_SUCCESS\<close> exactly when the declared
  version is the compiled one, and \<^verbatim>\<open>STATUS_NOT_SUPPORTED\<close> for every other version.
\<close>

theorem check_version_exact_match:
  assumes "WdfRequestRetrieveInputBuffer env Request (sizeof_VIGEM_CHECK_VERSION k) =
             (st, buf, n)"
    and "NT_SUCCESS st" and "n = sizeof_VIGEM_CHECK_VERSION k"
  shows "(status (Bus_EvtIoDeviceControl k env Request out inl (IOCTL_VIGEM_CHECK_VERSION k) s)
            = STATUS_SUCCESS \<longleftrightarrow> Version buf = VIGEM_COMMON_VERSION k)
       \<and> (Version buf \<noteq> VIGEM_COMMON_VERSION k \<longrightarrow>
            status (Bus_EvtIoDeviceControl k env Request out inl (IOCTL_VIGEM_CHECK_VERSION k) s)
              = STATUS_NOT_SUPPORTED)"
  using assms
  by (simp add: Bus_EvtIoDeviceControl_def Let_def switch_CHECK_VERSION case_CHECK_VERSION_def
      status_codes_differ status_codes_differ(5) [symmetric])

theorem check_version_exact_match_witness:
  "WdfRequestRetrieveInputBuffer sample_env (sample_req 8 8 1 0)
       (sizeof_VIGEM_CHECK_VERSION sample_constants) =
     (STATUS_SUCCESS, rq_buffer (sample_req 8 8 1 0), 8)
   \<and> NT_SUCCESS STATUS_SUCCESS \<and> 8 = sizeof_VIGEM_CHECK_VERSION sample_constants
   \<and> Version (rq_buffer (sample_req 8 8 1 0)) = VIGEM_COMMON_VERSION sample_constants
   \<and> status (Bus_EvtIoDeviceControl sample_constants sample_env (sample_req 8 8 1 0) 0 8
         (IOCTL_VIGEM_CHECK_VERSION sample_constants) sample_state) = STATUS_SUCCESS
   \<and> Version (rq_buffer (sample_req 8 8 2 0)) \<noteq> VIGEM_COMMON_VERSION sample_constants
   \<and> status (Bus_EvtIoDeviceControl sample_constants sample_env (sample_req 8 8 2 0) 0 8
         (IOCTL_VIGEM_CHECK_VERSION sample_constants) sample_state) = STATUS_NOT_SUPPORTED"
proof -
  have a: "WdfRequestRetrieveInputBuffer sample_env (sample_req 8 8 1 0)
       (sizeof_VIGEM_CHECK_VERSION sample_constants) =
     (STATUS_SUCCESS, rq_buffer (sample_req 8 8 1 0), 8)"
    by (simp add: sample_retrieve sample_constants_def)
  have a': "WdfRequestRetrieveInputBuffer sample_env (sample_req 8 8 2 0)
       (sizeof_VIGEM_CHECK_VERSION sample_constants) =
     (STATUS_SUCCESS, rq_buffer (sample_req 8 8 2 0), 8)"
    by (simp add: sample_retrieve sample_constants_def)
  have b: "NT_SUCCESS STATUS_SUCCESS"
    by (simp add: NT_SUCCESS_simps)
  have c: "8 = sizeof_VIGEM_CHECK_VERSION sample_constants"
    by (simp add: sample_constants_def)
  have d: "Version (rq_buffer (sample_req 8 8 1 0)) = VIGEM_COMMON_VERSION sample_constants"
    by (simp add: sample_constants_def sample_req_def)
  have d': "Version (rq_buffer (sample_req 8 8 2 0)) \<noteq> VIGEM_COMMON_VERSION sample_constants"
    by (simp add: sample_constants_def sample_req_def)
  from check_version_exact_match [OF a b c, of 0 8 sample_state] d
  have e: "status (Bus_EvtIoDeviceControl sample_constants sample_env (sample_req 8 8 1 0) 0 8
         (IOCTL_VIGEM_CHECK_VERSION sample_constants) sample_state) = STATUS_SUCCESS"
    by blast
  from check_version_exact_match [OF a' b c, of 0 8 sample_state] d'
  have e': "status (Bus_EvtIoDeviceControl sample_constants sample_env (sample_req 8 8 2 0) 0 8
         (IOCTL_VIGEM_CHECK_VERSION sample_constants) sample_state) = STATUS_NOT_SUPPORTED"
    by blast
  from a b c d e d' e' show ?thesis by blast
qed

text \<open>
  C10. The dispatcher completes the request itself, once and with the final status and
  length, exactly when the final status is not \<^verbatim>\<open>STATUS_PENDING\<close>; when it is
  \<^verbatim>\<open>STATUS_PENDING\<close> the dispatcher makes no completion call.
\<close>

theorem completed_once_unless_pending:
  "filter is_completion (trace (Bus_EvtIoDeviceControl k env Request out inl c s)) =
     (if status (Bus_EvtIoDeviceControl k env Request out inl c s) \<noteq> STATUS_PENDING
      then [Call_CompleteWithInformation
              (status (Bus_EvtIoDeviceControl k env Request out inl c s))
              (len (Bus_EvtIoDeviceControl k env Request out inl c s))]
      else [])"
  by (simp add: Bus_EvtIoDeviceControl_def Let_def switch_has_no_completion)

lemma sample_notification_parks:
  "status (Bus_EvtIoDeviceControl sample_constants sample_env (sample_req 12 12 0 1) 12 12
     (IOCTL_XUSB_REQUEST_NOTIFICATION sample_constants) sample_state) = STATUS_PENDING"
  by (simp add: Bus_EvtIoDeviceControl_def Let_def switch_target_op [OF sample_labels_distinct]
      case_REQUEST_NOTIFICATION_def sample_retrieve sample_sizes sample_req_fields sample_lookup
      sample_plugged sample_enqueue NT_SUCCESS_simps)

lemma sample_notification_busy:
  "status (Bus_EvtIoDeviceControl sample_constants sample_env (sample_req 12 12 0 1) 12 12
     (IOCTL_XUSB_REQUEST_NOTIFICATION sample_constants) sample_state_parked)
     = STATUS_DEVICE_BUSY"
  "len (Bus_EvtIoDeviceControl sample_constants sample_env (sample_req 12 12 0 1) 12 12
     (IOCTL_XUSB_REQUEST_NOTIFICATION sample_constants) sample_state_parked) = 12"
  by (simp_all add: Bus_EvtIoDeviceControl_def Let_def
      switch_target_op [OF sample_labels_distinct] case_REQUEST_NOTIFICATION_def sample_retrieve
      sample_sizes sample_req_fields sample_lookup sample_plugged sample_enqueue NT_SUCCESS_simps
      status_codes_differ)

theorem completed_once_unless_pending_witness:
  "filter is_completion
     (trace (Bus_EvtIoDeviceControl sample_constants sample_env (sample_req 12 12 0 1) 12 12
        (IOCTL_XUSB_REQUEST_NOTIFICATION sample_constants) sample_state)) = []
   \<and> filter is_completion
     (trace (Bus_EvtIoDeviceControl sample_constants sample_env (sample_req 12 12 0 1) 12 12
        (IOCTL_XUSB_REQUEST_NOTIFICATION sample_constants) sample_state_parked))
     = [Call_CompleteWithInformation STATUS_DEVICE_BUSY 12]"
proof -
  from completed_once_unless_pending [of sample_constants sample_env "sample_req 12 12 0 1"
      12 12 "IOCTL_XUSB_REQUEST_NOTIFICATION sample_constants" sample_state]
  have a: "filter is_completion
     (trace (Bus_EvtIoDeviceControl sample_constants sample_env (sample_req 12 12 0 1) 12 12
        (IOCTL_XUSB_REQUEST_NOTIFICATION sample_constants) sample_state)) = []"
    by (simp only: sample_notification_parks simp_thms if_False)
  from completed_once_unless_pending [of sample_constants sample_env "sample_req 12 12 0 1"
      12 12 "IOCTL_XUSB_REQUEST_NOTIFICATION sample_constants" sample_state_parked]
  have b: "filter is_completion
     (trace (Bus_EvtIoDeviceControl sample_constants sample_env (sample_req 12 12 0 1) 12 12
        (IOCTL_XUSB_REQUEST_NOTIFICATION sample_constants) sample_state_parked))
     = [Call_CompleteWithInformation STATUS_DEVICE_BUSY 12]"
    by (simp only: sample_notification_busy status_codes_differ simp_thms if_True)
  from a b show ?thesis by (rule conjI)
qed

text \<open>
  C2. For each of the five operations on a target: when the input buffer is retrieved, the
  size checks pass and the serial number is 0, the status is \<^verbatim>\<open>STATUS_INVALID_PARAMETER\<close>,
  the registry is never asked for a target and the state of the bus is unchanged.
\<close>

theorem zero_serial_is_invalid_parameter:
  assumes "distinct (case_labels k)"
    and "NT_SUCCESS (retrieved_status k env Request op)"
    and "size_checks_pass k env Request inl op"
    and "SerialNo (retrieved_buffer k env Request op) = 0"
  shows "status (Bus_EvtIoDeviceControl k env Request out inl (op_code k op) s)
           = STATUS_INVALID_PARAMETER
       \<and> filter is_lookup (trace (Bus_EvtIoDeviceControl k env Request out inl (op_code k op) s))
           = []
       \<and> state (Bus_EvtIoDeviceControl k env Request out inl (op_code k op) s) = s"
proof -
  obtain st buf n where
    r: "WdfRequestRetrieveInputBuffer env Request (op_size k op) = (st, buf, n)"
    by (cases "WdfRequestRetrieveInputBuffer env Request (op_size k op)") auto
  with assms(2-4) have h: "NT_SUCCESS st" "op_size k op = unat (Size buf)" "n = inl"
      "SerialNo buf = 0"
    by (simp_all add: vocab_defs)
  show ?thesis
    using r h
    by (cases op)
      (simp_all add: Bus_EvtIoDeviceControl_def Let_def switch_target_op [OF assms(1)] case_defs
        status_codes_differ)
qed

theorem zero_serial_is_invalid_parameter_witness:
  "distinct (case_labels sample_constants)
   \<and> NT_SUCCESS (retrieved_status sample_constants sample_env (sample_req 16 16 0 0) Ds4Notify)
   \<and> size_checks_pass sample_constants sample_env (sample_req 16 16 0 0) 16 Ds4Notify
   \<and> SerialNo (retrieved_buffer sample_constants sample_env (sample_req 16 16 0 0) Ds4Notify) = 0
   \<and> status (Bus_EvtIoDeviceControl sample_constants sample_env (sample_req 16 16 0 0) 16 16
        (op_code sample_constants Ds4Notify) sample_state) = STATUS_INVALID_PARAMETER
   \<and> filter is_lookup
        (trace (Bus_EvtIoDeviceControl sample_constants sample_env (sample_req 16 16 0 0) 16 16
           (op_code sample_constants Ds4Notify) sample_state)) = []
   \<and> state (Bus_EvtIoDeviceControl sample_constants sample_env (sample_req 16 16 0 0) 16 16
        (op_code sample_constants Ds4Notify) sample_state) = sample_state"
proof -
  have a: "NT_SUCCESS
      (retrieved_status sample_constants sample_env (sample_req 16 16 0 0) Ds4Notify)"
    by (simp add: sample_retrieved sample_sizes NT_SUCCESS_simps)
  have b: "size_checks_pass sample_constants sample_env (sample_req 16 16 0 0) 16 Ds4Notify"
    by (simp add: size_checks_pass_def sample_retrieved sample_req_fields sample_sizes)
  have c: "SerialNo
      (retrieved_buffer sample_constants sample_env (sample_req 16 16 0 0) Ds4Notify) = 0"
    by (simp add: sample_retrieved sample_req_fields)
  from sample_labels_distinct a b c
    zero_serial_is_invalid_parameter [OF sample_labels_distinct a b c, of 16 sample_state]
  show ?thesis by blast
qed

text \<open>
  C4. For each of the five operations on a target: with validated input and a serial other
  than 0, the dispatcher asks the registry once, in the state it was given, for the type
  that the operation expects (\<^verbatim>\<open>Xbox360Wired\<close> for the XUSB operations and
  get-user-index, \<^verbatim>\<open>DualShock4Wired\<close> for the DS4 operations) and the serial of the
  request. When that lookup misses, the status is \<^verbatim>\<open>STATUS_DEVICE_DOES_NOT_EXIST\<close> and
  nothing follows the lookup but the completion. When it hits, the operation runs on the
  target that the lookup returned, in the state that the lookup left: the final status and
  state are those of \<^verbatim>\<open>SubmitReport\<close>, \<^verbatim>\<open>EnqueueNotification\<close> (a success turned
  into \<^verbatim>\<open>STATUS_PENDING\<close>) or \<^verbatim>\<open>GetUserIndex\<close> on that target, and the calls to
  the bus are that lookup and that operation, in this order.
\<close>

theorem lookup_by_expected_type_only:
  assumes "distinct (case_labels k)"
    and "validated k env Request out inl op"
    and "buf = retrieved_buffer k env Request op"
    and "GetPdoByTypeAndSerial env (expected_type op) (SerialNo buf) s = (found, s1)"
    and "R = Bus_EvtIoDeviceControl k env Request out inl (op_code k op) s"
  shows "filter is_lookup (trace R)
           = [Call_GetPdoByTypeAndSerial (expected_type op) (SerialNo buf)]
       \<and> (found = None \<longrightarrow>
            status R = STATUS_DEVICE_DOES_NOT_EXIST
          \<and> state R = s1
          \<and> trace R
              = [Call_RetrieveInputBuffer (op_size k op),
                 Call_GetPdoByTypeAndSerial (expected_type op) (SerialNo buf),
                 Call_CompleteWithInformation STATUS_DEVICE_DOES_NOT_EXIST
                   (retrieved_length k env Request op)])
       \<and> (\<forall>pdo. found = Some pdo \<longrightarrow>
             (op = XusbSubmit \<or> op = Ds4Submit \<longrightarrow>
                status R = fst (SubmitReport env pdo buf s1)
              \<and> state R = snd (SubmitReport env pdo buf s1)
              \<and> filter touches_bus (trace R)
                  = [Call_GetPdoByTypeAndSerial (expected_type op) (SerialNo buf),
                     Call_SubmitReport pdo])
           \<and> (op = XusbNotify \<or> op = Ds4Notify \<longrightarrow>
                status R = (if NT_SUCCESS (fst (EnqueueNotification env pdo Request s1))
                            then STATUS_PENDING
                            else fst (EnqueueNotification env pdo Request s1))
              \<and> state R = snd (EnqueueNotification env pdo Request s1)
              \<and> filter touches_bus (trace R)
                  = [Call_GetPdoByTypeAndSerial (expected_type op) (SerialNo buf),
                     Call_EnqueueNotification pdo])
           \<and> (op = XusbGetUserIndex \<longrightarrow>
                status R = fst (fst (GetUserIndex env pdo s1))
              \<and> state R = snd (GetUserIndex env pdo s1)
              \<and> filter touches_bus (trace R)
                  = [Call_GetPdoByTypeAndSerial (expected_type op) (SerialNo buf),
                     Call_GetUserIndex pdo]))"
proof -
  obtain st n where
    r: "WdfRequestRetrieveInputBuffer env Request (op_size k op) = (st, buf, n)"
    using assms(3)
    by (cases "WdfRequestRetrieveInputBuffer env Request (op_size k op)")
      (auto simp add: retrieved_buffer_def)
  with assms(2) have h: "NT_SUCCESS st" "op_size k op = unat (Size buf)" "n = inl"
      "SerialNo buf \<noteq> 0" "expects_output op \<Longrightarrow> \<not> out < op_size k op"
    by (auto simp add: vocab_defs)
  from r have n: "retrieved_length k env Request op = n"
    by (simp add: retrieved_length_def)
  note g = assms(4)
  show ?thesis
  proof (cases found)
    case None
    with r h g n show ?thesis
      unfolding assms(5)
      by (cases op)
        (simp_all add: Bus_EvtIoDeviceControl_def Let_def switch_target_op [OF assms(1)]
          case_defs status_codes_differ)
  next
    case (Some pdo)
    obtain sa sb where sub: "SubmitReport env pdo buf s1 = (sa, sb)"
      by (cases "SubmitReport env pdo buf s1") auto
    obtain ea eb where enq: "EnqueueNotification env pdo Request s1 = (ea, eb)"
      by (cases "EnqueueNotification env pdo Request s1") auto
    obtain ga gv gb where gui: "GetUserIndex env pdo s1 = ((ga, gv), gb)"
      by (cases "GetUserIndex env pdo s1") auto
    show ?thesis
    proof (cases op)
      case XusbSubmit
      with r h g Some sub show ?thesis
        unfolding assms(5)
        by (simp add: Bus_EvtIoDeviceControl_def Let_def switch_target_op [OF assms(1)]
            case_SUBMIT_REPORT_def)
    next
      case Ds4Submit
      with r h g Some sub show ?thesis
        unfolding assms(5)
        by (simp add: Bus_EvtIoDeviceControl_def Let_def switch_target_op [OF assms(1)]
            case_SUBMIT_REPORT_def)
    next
      case XusbNotify
      with r h g Some enq show ?thesis
        unfolding assms(5)
        by (simp add: Bus_EvtIoDeviceControl_def Let_def switch_target_op [OF assms(1)]
            case_REQUEST_NOTIFICATION_def failure_is_not_pending)
    next
      case Ds4Notify
      with r h g Some enq show ?thesis
        unfolding assms(5)
        by (simp add: Bus_EvtIoDeviceControl_def Let_def switch_target_op [OF assms(1)]
            case_REQUEST_NOTIFICATION_def failure_is_not_pending)
    next
      case XusbGetUserIndex
      with r h g Some gui show ?thesis
        unfolding assms(5)
        by (simp add: Bus_EvtIoDeviceControl_def Let_def switch_target_op [OF assms(1)]
            case_GET_USER_INDEX_def)
    qed
  qed
qed

theorem lookup_by_expected_type_only_witness:
  "distinct (case_labels sample_constants)
   \<and> validated sample_constants sample_env (sample_req 20 20 0 1) 0 20 Ds4Submit
   \<and> GetPdoByTypeAndSerial sample_env (expected_type Ds4Submit)
        (SerialNo (rq_buffer (sample_req 20 20 0 1))) sample_state = (None, sample_state)
   \<and> filter is_lookup
        (trace (Bus_EvtIoDeviceControl sample_constants sample_env (sample_req 20 20 0 1) 0 20
           (op_code sample_constants Ds4Submit) sample_state))
      = [Call_GetPdoByTypeAndSerial DualShock4Wired 1]
   \<and> status (Bus_EvtIoDeviceControl sample_constants sample_env (sample_req 20 20 0 1) 0 20
        (op_code sample_constants Ds4Submit) sample_state) = STATUS_DEVICE_DOES_NOT_EXIST
   \<and> validated sample_constants sample_env (sample_req 20 20 0 1) 0 20 XusbSubmit
   \<and> GetPdoByTypeAndSerial sample_env (expected_type XusbSubmit)
        (SerialNo (rq_buffer (sample_req 20 20 0 1))) sample_state
      = (Some (Xbox360Wired, 1), sample_state)
   \<and> status (Bus_EvtIoDeviceControl sample_constants sample_env (sample_req 20 20 0 1) 0 20
        (op_code sample_constants XusbSubmit) sample_state) = STATUS_SUCCESS
   \<and> state (Bus_EvtIoDeviceControl sample_constants sample_env (sample_req 20 20 0 1) 0 20
        (op_code sample_constants XusbSubmit) sample_state)
      = sample_state\<lparr>reports := Suc (reports sample_state)\<rparr>
   \<and> filter touches_bus
        (trace (Bus_EvtIoDeviceControl sample_constants sample_env (sample_req 20 20 0 1) 0 20
           (op_code sample_constants XusbSubmit) sample_state))
      = [Call_GetPdoByTypeAndSerial Xbox360Wired 1, Call_SubmitReport (Xbox360Wired, 1)]"
proof -
  have a: "validated sample_constants sample_env (sample_req 20 20 0 1) 0 20 Ds4Submit"
    by (simp add: validated_def output_fits_def size_checks_pass_def sample_retrieved
        sample_req_fields sample_sizes NT_SUCCESS_simps)
  have a': "validated sample_constants sample_env (sample_req 20 20 0 1) 0 20 XusbSubmit"
    by (simp add: validated_def output_fits_def size_checks_pass_def sample_retrieved
        sample_req_fields sample_sizes NT_SUCCESS_simps)
  have b: "rq_buffer (sample_req 20 20 0 1) =
      retrieved_buffer sample_constants sample_env (sample_req 20 20 0 1) Ds4Submit"
    by (simp add: sample_retrieved)
  have b': "rq_buffer (sample_req 20 20 0 1) =
      retrieved_buffer sample_constants sample_env (sample_req 20 20 0 1) XusbSubmit"
    by (simp add: sample_retrieved)
  have c: "GetPdoByTypeAndSerial sample_env (expected_type Ds4Submit)
        (SerialNo (rq_buffer (sample_req 20 20 0 1))) sample_state = (None, sample_state)"
    by (simp add: sample_req_fields sample_lookup sample_plugged)
  have c': "GetPdoByTypeAndSerial sample_env (expected_type XusbSubmit)
        (SerialNo (rq_buffer (sample_req 20 20 0 1))) sample_state
      = (Some (Xbox360Wired, 1), sample_state)"
    by (simp add: sample_req_fields sample_lookup sample_plugged)
  have e: "Call_GetPdoByTypeAndSerial (expected_type Ds4Submit)
        (SerialNo (rq_buffer (sample_req 20 20 0 1)))
      = Call_GetPdoByTypeAndSerial DualShock4Wired 1"
    "Call_GetPdoByTypeAndSerial (expected_type XusbSubmit)
        (SerialNo (rq_buffer (sample_req 20 20 0 1)))
      = Call_GetPdoByTypeAndSerial Xbox360Wired 1"
    by (simp_all add: sample_req_fields)
  have f: "fst (SubmitReport sample_env (Xbox360Wired, 1) (rq_buffer (sample_req 20 20 0 1))
             sample_state) = STATUS_SUCCESS"
    "snd (SubmitReport sample_env (Xbox360Wired, 1) (rq_buffer (sample_req 20 20 0 1))
             sample_state) = sample_state\<lparr>reports := Suc (reports sample_state)\<rparr>"
    by (simp_all add: sample_submit)
  note miss = lookup_by_expected_type_only [OF sample_labels_distinct a b c refl]
  note hit = lookup_by_expected_type_only [OF sample_labels_distinct a' b' c' refl]
  from miss have "filter is_lookup
        (trace (Bus_EvtIoDeviceControl sample_constants sample_env (sample_req 20 20 0 1) 0 20
           (op_code sample_constants Ds4Submit) sample_state))
      = [Call_GetPdoByTypeAndSerial (expected_type Ds4Submit)
           (SerialNo (rq_buffer (sample_req 20 20 0 1)))]"
    by blast
  then have m1: "filter is_lookup
        (trace (Bus_EvtIoDeviceControl sample_constants sample_env (sample_req 20 20 0 1) 0 20
           (op_code sample_constants Ds4Submit) sample_state))
      = [Call_GetPdoByTypeAndSerial DualShock4Wired 1]"
    by (simp only: e)
  from miss have m2: "status (Bus_EvtIoDeviceControl sample_constants sample_env
        (sample_req 20 20 0 1) 0 20 (op_code sample_constants Ds4Submit) sample_state)
      = STATUS_DEVICE_DOES_NOT_EXIST"
    by blast
  from hit have h0: "status (Bus_EvtIoDeviceControl sample_constants sample_env
          (sample_req 20 20 0 1) 0 20 (op_code sample_constants XusbSubmit) sample_state)
        = fst (SubmitReport sample_env (Xbox360Wired, 1) (rq_buffer (sample_req 20 20 0 1))
             sample_state)
      \<and> state (Bus_EvtIoDeviceControl sample_constants sample_env
          (sample_req 20 20 0 1) 0 20 (op_code sample_constants XusbSubmit) sample_state)
        = snd (SubmitReport sample_env (Xbox360Wired, 1) (rq_buffer (sample_req 20 20 0 1))
             sample_state)
      \<and> filter touches_bus
          (trace (Bus_EvtIoDeviceControl sample_constants sample_env (sample_req 20 20 0 1) 0
             20 (op_code sample_constants XusbSubmit) sample_state))
        = [Call_GetPdoByTypeAndSerial (expected_type XusbSubmit)
             (SerialNo (rq_buffer (sample_req 20 20 0 1))),
           Call_SubmitReport (Xbox360Wired, 1)]"
    by blast
  then have h1: "status (Bus_EvtIoDeviceControl sample_constants sample_env
          (sample_req 20 20 0 1) 0 20 (op_code sample_constants XusbSubmit) sample_state)
        = STATUS_SUCCESS"
    and h2: "state (Bus_EvtIoDeviceControl sample_constants sample_env
          (sample_req 20 20 0 1) 0 20 (op_code sample_constants XusbSubmit) sample_state)
        = sample_state\<lparr>reports := Suc (reports sample_state)\<rparr>"
    and h3: "filter touches_bus
          (trace (Bus_EvtIoDeviceControl sample_constants sample_env (sample_req 20 20 0 1) 0
             20 (op_code sample_constants XusbSubmit) sample_state))
        = [Call_GetPdoByTypeAndSerial Xbox360Wired 1, Call_SubmitReport (Xbox360Wired, 1)]"
    by (simp_all only: f e)
  from sample_labels_distinct a c m1 m2 a' c' h1 h2 h3 show ?thesis by blast
qed

text \<open>
  C5. A request for a notification (XUSB or DS4) whose output buffer is smaller than the
  notification structure is rejected with \<^verbatim>\<open>STATUS_INVALID_PARAMETER\<close> before the input
  buffer is retrieved and before the registry is asked, whatever targets exist: the only
  call is the completion.
\<close>

theorem notification_output_too_small_rejected_first:
  assumes "distinct (case_labels k)"
    and "op = XusbNotify \<or> op = Ds4Notify"
    and "out < op_size k op"
  shows "Bus_EvtIoDeviceControl k env Request out inl (op_code k op) s =
           \<lparr>status = STATUS_INVALID_PARAMETER, len = 0, sysbuf = None, state = s,
            trace = [Call_CompleteWithInformation STATUS_INVALID_PARAMETER 0]\<rparr>
       \<and> \<not> NT_SUCCESS (status (Bus_EvtIoDeviceControl k env Request out inl (op_code k op) s))
       \<and> filter is_retrieval
            (trace (Bus_EvtIoDeviceControl k env Request out inl (op_code k op) s)) = []
       \<and> filter is_lookup
            (trace (Bus_EvtIoDeviceControl k env Request out inl (op_code k op) s)) = []"
proof -
  from assms(2,3)
  have "Bus_EvtIoDeviceControl_switch k env Request out inl (op_code k op) s =
          \<lparr>status = STATUS_INVALID_PARAMETER, len = 0, sysbuf = None, state = s, trace = []\<rparr>"
    by (cases op) (simp_all add: switch_target_op [OF assms(1)] case_REQUEST_NOTIFICATION_def)
  then show ?thesis
    by (simp add: Bus_EvtIoDeviceControl_def status_codes_differ NT_SUCCESS_simps)
qed

theorem notification_output_too_small_rejected_first_witness:
  "distinct (case_labels sample_constants)
   \<and> (15 :: nat) < op_size sample_constants Ds4Notify
   \<and> (DualShock4Wired, 7) \<in> set (plugged sample_state)
   \<and> Bus_EvtIoDeviceControl sample_constants sample_env (sample_req 16 16 0 7) 15 16
        (op_code sample_constants Ds4Notify) sample_state =
      \<lparr>status = STATUS_INVALID_PARAMETER, len = 0, sysbuf = None, state = sample_state,
       trace = [Call_CompleteWithInformation STATUS_INVALID_PARAMETER 0]\<rparr>"
proof -
  have a: "Ds4Notify = XusbNotify \<or> Ds4Notify = Ds4Notify"
    by simp
  have b: "(15 :: nat) < op_size sample_constants Ds4Notify"
    by (simp add: sample_sizes)
  have c: "(DualShock4Wired, 7) \<in> set (plugged sample_state)"
    by (simp add: sample_plugged)
  from sample_labels_distinct b c
    notification_output_too_small_rejected_first
      [OF sample_labels_distinct a b, of sample_env "sample_req 16 16 0 7" 16 sample_state]
  show ?thesis by blast
qed

text \<open>
  C6. A request for a notification (XUSB or DS4) that passes validation and finds its
  target: when \<^verbatim>\<open>EnqueueNotification\<close> succeeds the status is \<^verbatim>\<open>STATUS_PENDING\<close> and the
  dispatcher does not complete the request; when it fails, its status is the final status,
  it is not \<^verbatim>\<open>STATUS_PENDING\<close>, and the request is completed with it. No request is ever
  completed with \<^verbatim>\<open>STATUS_PENDING\<close>.
\<close>

theorem notification_pending_or_error:
  assumes "distinct (case_labels k)"
    and "op = XusbNotify \<or> op = Ds4Notify"
    and "validated k env Request out inl op"
    and "GetPdoByTypeAndSerial env (expected_type op)
           (SerialNo (retrieved_buffer k env Request op)) s = (Some pdo, s1)"
    and "EnqueueNotification env pdo Request s1 = (st2, s2)"
  shows "(NT_SUCCESS st2 \<longrightarrow>
            status (Bus_EvtIoDeviceControl k env Request out inl (op_code k op) s)
              = STATUS_PENDING
          \<and> filter is_completion
               (trace (Bus_EvtIoDeviceControl k env Request out inl (op_code k op) s)) = [])
       \<and> (\<not> NT_SUCCESS st2 \<longrightarrow>
            status (Bus_EvtIoDeviceControl k env Request out inl (op_code k op) s) = st2
          \<and> st2 \<noteq> STATUS_PENDING
          \<and> filter is_completion
               (trace (Bus_EvtIoDeviceControl k env Request out inl (op_code k op) s))
              = [Call_CompleteWithInformation st2 (retrieved_length k env Request op)])
       \<and> (\<forall>st m. Call_CompleteWithInformation st m
               \<in> set (trace (Bus_EvtIoDeviceControl k env Request out inl (op_code k op) s))
             \<longrightarrow> st \<noteq> STATUS_PENDING)"
proof -
  obtain st buf n where
    r: "WdfRequestRetrieveInputBuffer env Request (op_size k op) = (st, buf, n)"
    by (cases "WdfRequestRetrieveInputBuffer env Request (op_size k op)") auto
  with assms(2,3) have h: "NT_SUCCESS st" "op_size k op = unat (Size buf)" "n = inl"
      "SerialNo buf \<noteq> 0" "\<not> out < op_size k op"
    by (auto simp add: vocab_defs)
  from r assms(4) have g:
    "GetPdoByTypeAndSerial env (expected_type op) (SerialNo buf) s = (Some pdo, s1)"
    by (simp add: retrieved_buffer_def)
  have sw: "Bus_EvtIoDeviceControl_switch k env Request out inl (op_code k op) s =
      \<lparr>status = (if NT_SUCCESS st2 then STATUS_PENDING else st2), len = n, sysbuf = Some buf,
       state = s2,
       trace = [Call_RetrieveInputBuffer (op_size k op),
                Call_GetPdoByTypeAndSerial (expected_type op) (SerialNo buf),
                Call_EnqueueNotification pdo]\<rparr>"
    using assms(2) r h g assms(5)
    by (cases op)
      (simp_all add: switch_target_op [OF assms(1)] case_REQUEST_NOTIFICATION_def)
  from r have n: "retrieved_length k env Request op = n"
    by (simp add: retrieved_length_def)
  show ?thesis
    by (simp add: Bus_EvtIoDeviceControl_def sw n failure_is_not_pending)
qed

theorem notification_pending_or_error_witness:
  "distinct (case_labels sample_constants)
   \<and> validated sample_constants sample_env (sample_req 12 12 0 1) 12 12 XusbNotify
   \<and> GetPdoByTypeAndSerial sample_env (expected_type XusbNotify)
        (SerialNo (retrieved_buffer sample_constants sample_env (sample_req 12 12 0 1)
           XusbNotify)) sample_state = (Some (Xbox360Wired, 1), sample_state)
   \<and> EnqueueNotification sample_env (Xbox360Wired, 1) (sample_req 12 12 0 1) sample_state =
        (STATUS_SUCCESS, sample_state\<lparr>parked := [(Xbox360Wired, 1)]\<rparr>)
   \<and> NT_SUCCESS STATUS_SUCCESS
   \<and> status (Bus_EvtIoDeviceControl sample_constants sample_env (sample_req 12 12 0 1) 12 12
        (op_code sample_constants XusbNotify) sample_state) = STATUS_PENDING
   \<and> filter is_completion
        (trace (Bus_EvtIoDeviceControl sample_constants sample_env (sample_req 12 12 0 1) 12 12
           (op_code sample_constants XusbNotify) sample_state)) = []
   \<and> EnqueueNotification sample_env (Xbox360Wired, 1) (sample_req 12 12 0 1)
        sample_state_parked = (STATUS_DEVICE_BUSY, sample_state_parked)
   \<and> \<not> NT_SUCCESS STATUS_DEVICE_BUSY
   \<and> status (Bus_EvtIoDeviceControl sample_constants sample_env (sample_req 12 12 0 1) 12 12
        (op_code sample_constants XusbNotify) sample_state_parked) = STATUS_DEVICE_BUSY"
proof -
  have o: "XusbNotify = XusbNotify \<or> XusbNotify = Ds4Notify"
    by simp
  have a: "validated sample_constants sample_env (sample_req 12 12 0 1) 12 12 XusbNotify"
    by (simp add: validated_def output_fits_def size_checks_pass_def sample_retrieved
        sample_req_fields sample_sizes NT_SUCCESS_simps)
  have b: "GetPdoByTypeAndSerial sample_env (expected_type XusbNotify)
        (SerialNo (retrieved_buffer sample_constants sample_env (sample_req 12 12 0 1)
           XusbNotify)) sample_state = (Some (Xbox360Wired, 1), sample_state)"
    by (simp add: sample_retrieved sample_req_fields sample_lookup sample_plugged)
  have b': "GetPdoByTypeAndSerial sample_env (expected_type XusbNotify)
        (SerialNo (retrieved_buffer sample_constants sample_env (sample_req 12 12 0 1)
           XusbNotify)) sample_state_parked = (Some (Xbox360Wired, 1), sample_state_parked)"
    by (simp add: sample_retrieved sample_req_fields sample_lookup sample_plugged)
  have c: "EnqueueNotification sample_env (Xbox360Wired, 1) (sample_req 12 12 0 1)
        sample_state = (STATUS_SUCCESS, sample_state\<lparr>parked := [(Xbox360Wired, 1)]\<rparr>)"
    by (simp add: sample_enqueue sample_plugged)
  have c': "EnqueueNotification sample_env (Xbox360Wired, 1) (sample_req 12 12 0 1)
        sample_state_parked = (STATUS_DEVICE_BUSY, sample_state_parked)"
    by (simp add: sample_enqueue sample_plugged)
  have d: "NT_SUCCESS STATUS_SUCCESS" and d': "\<not> NT_SUCCESS STATUS_DEVICE_BUSY"
    by (simp_all add: NT_SUCCESS_simps)
  from notification_pending_or_error [OF sample_labels_distinct o a b c] d
  have e: "status (Bus_EvtIoDeviceControl sample_constants sample_env (sample_req 12 12 0 1)
        12 12 (op_code sample_constants XusbNotify) sample_state) = STATUS_PENDING"
    and f: "filter is_completion
        (trace (Bus_EvtIoDeviceControl sample_constants sample_env (sample_req 12 12 0 1) 12 12
           (op_code sample_constants XusbNotify) sample_state)) = []"
    by blast+
  from notification_pending_or_error [OF sample_labels_distinct o a b' c'] d'
  have e': "status (Bus_EvtIoDeviceControl sample_constants sample_env (sample_req 12 12 0 1)
        12 12 (op_code sample_constants XusbNotify) sample_state_parked) = STATUS_DEVICE_BUSY"
    by blast
  from sample_labels_distinct a b c d e f c' d' e' show ?thesis by blast
qed

text \<open>
  C9. Get-user-index with enough output capacity, a valid size and a serial other than 0
  asks the registry for an \<^verbatim>\<open>Xbox360Wired\<close> target only. On a miss the status is
  \<^verbatim>\<open>STATUS_DEVICE_DOES_NOT_EXIST\<close> and the buffer is untouched; on a hit the dispatcher
  calls \<^verbatim>\<open>GetUserIndex\<close> on that target, returns its status, and the value it stores is
  the \<^verbatim>\<open>UserIndex\<close> field of the buffer handed back.
\<close>

theorem get_user_index_xbox360_only:
  assumes "distinct (case_labels k)"
    and "validated k env Request out inl XusbGetUserIndex"
    and "buf = retrieved_buffer k env Request XusbGetUserIndex"
    and "GetPdoByTypeAndSerial env Xbox360Wired (SerialNo buf) s = (found, s1)"
  shows "filter is_lookup
           (trace (Bus_EvtIoDeviceControl k env Request out inl (IOCTL_XUSB_GET_USER_INDEX k) s))
           = [Call_GetPdoByTypeAndSerial Xbox360Wired (SerialNo buf)]
       \<and> (found = None \<longrightarrow>
            status (Bus_EvtIoDeviceControl k env Request out inl (IOCTL_XUSB_GET_USER_INDEX k) s)
              = STATUS_DEVICE_DOES_NOT_EXIST
          \<and> sysbuf (Bus_EvtIoDeviceControl k env Request out inl
                      (IOCTL_XUSB_GET_USER_INDEX k) s) = Some buf)
       \<and> (\<forall>pdo st2 stored s2.
             found = Some pdo \<longrightarrow> GetUserIndex env pdo s1 = ((st2, stored), s2) \<longrightarrow>
               status (Bus_EvtIoDeviceControl k env Request out inl
                         (IOCTL_XUSB_GET_USER_INDEX k) s) = st2
             \<and> Call_GetUserIndex pdo
                 \<in> set (trace (Bus_EvtIoDeviceControl k env Request out inl
                                 (IOCTL_XUSB_GET_USER_INDEX k) s))
             \<and> sysbuf (Bus_EvtIoDeviceControl k env Request out inl
                         (IOCTL_XUSB_GET_USER_INDEX k) s)
                 = Some (case stored of None \<Rightarrow> buf | Some v \<Rightarrow> buf\<lparr>UserIndex := v\<rparr>))"
proof -
  obtain st n where
    r: "WdfRequestRetrieveInputBuffer env Request (sizeof_XUSB_GET_USER_INDEX k) = (st, buf, n)"
    using assms(3)
    by (cases "WdfRequestRetrieveInputBuffer env Request (sizeof_XUSB_GET_USER_INDEX k)")
      (auto simp add: retrieved_buffer_def)
  with assms(2) have h: "NT_SUCCESS st" "sizeof_XUSB_GET_USER_INDEX k = unat (Size buf)"
      "n = inl" "SerialNo buf \<noteq> 0" "\<not> out < sizeof_XUSB_GET_USER_INDEX k"
    by (auto simp add: vocab_defs)
  show ?thesis
  proof (cases found)
    case None
    with r h assms(4) show ?thesis
      by (simp add: Bus_EvtIoDeviceControl_def Let_def switch_target_op [OF assms(1)]
          case_GET_USER_INDEX_def status_codes_differ)
  next
    case (Some pdo)
    obtain st2 stored s2 where u: "GetUserIndex env pdo s1 = ((st2, stored), s2)"
      by (cases "GetUserIndex env pdo s1") auto
    with r h assms(4) Some show ?thesis
      by (simp add: Bus_EvtIoDeviceControl_def Let_def switch_target_op [OF assms(1)]
          case_GET_USER_INDEX_def)
  qed
qed

theorem get_user_index_xbox360_only_witness:
  "distinct (case_labels sample_constants)
   \<and> validated sample_constants sample_env (sample_req 12 12 0 1) 12 12 XusbGetUserIndex
   \<and> GetPdoByTypeAndSerial sample_env Xbox360Wired
        (SerialNo (rq_buffer (sample_req 12 12 0 1))) sample_state =
        (Some (Xbox360Wired, 1), sample_state)
   \<and> GetUserIndex sample_env (Xbox360Wired, 1) sample_state =
        ((STATUS_SUCCESS, Some 0), sample_state)
   \<and> filter is_lookup
        (trace (Bus_EvtIoDeviceControl sample_constants sample_env (sample_req 12 12 0 1) 12 12
           (IOCTL_XUSB_GET_USER_INDEX sample_constants) sample_state))
      = [Call_GetPdoByTypeAndSerial Xbox360Wired 1]
   \<and> status (Bus_EvtIoDeviceControl sample_constants sample_env (sample_req 12 12 0 1) 12 12
        (IOCTL_XUSB_GET_USER_INDEX sample_constants) sample_state) = STATUS_SUCCESS
   \<and> map_option UserIndex
        (sysbuf (Bus_EvtIoDeviceControl sample_constants sample_env (sample_req 12 12 0 1) 12 12
           (IOCTL_XUSB_GET_USER_INDEX sample_constants) sample_state)) = Some 0"
proof -
  have a: "validated sample_constants sample_env (sample_req 12 12 0 1) 12 12 XusbGetUserIndex"
    by (simp add: validated_def output_fits_def size_checks_pass_def sample_retrieved
        sample_req_fields sample_sizes NT_SUCCESS_simps)
  have b: "rq_buffer (sample_req 12 12 0 1) =
      retrieved_buffer sample_constants sample_env (sample_req 12 12 0 1) XusbGetUserIndex"
    by (simp add: sample_retrieved)
  have c: "GetPdoByTypeAndSerial sample_env Xbox360Wired
        (SerialNo (rq_buffer (sample_req 12 12 0 1))) sample_state =
        (Some (Xbox360Wired, 1), sample_state)"
    by (simp add: sample_req_fields sample_lookup sample_plugged)
  have d: "GetUserIndex sample_env (Xbox360Wired, 1) sample_state =
        ((STATUS_SUCCESS, Some 0), sample_state)"
    by (simp add: sample_get_user_index)
  have s: "SerialNo (rq_buffer (sample_req 12 12 0 1)) = 1"
    by (simp add: sample_req_fields)
  note t = get_user_index_xbox360_only [OF sample_labels_distinct a b c]
  from t have e: "filter is_lookup
        (trace (Bus_EvtIoDeviceControl sample_constants sample_env (sample_req 12 12 0 1) 12 12
           (IOCTL_XUSB_GET_USER_INDEX sample_constants) sample_state))
      = [Call_GetPdoByTypeAndSerial Xbox360Wired 1]"
    by (simp only: s)
  from t d have f: "status (Bus_EvtIoDeviceControl sample_constants sample_env
        (sample_req 12 12 0 1) 12 12 (IOCTL_XUSB_GET_USER_INDEX sample_constants) sample_state)
      = STATUS_SUCCESS"
    by blast
  from t d have "sysbuf (Bus_EvtIoDeviceControl sample_constants sample_env
        (sample_req 12 12 0 1) 12 12 (IOCTL_XUSB_GET_USER_INDEX sample_constants) sample_state)
      = Some (case Some 0 of None \<Rightarrow> rq_buffer (sample_req 12 12 0 1)
              | Some v \<Rightarrow> (rq_buffer (sample_req 12 12 0 1))\<lparr>UserIndex := v\<rparr>)"
    by blast
  then have g: "map_option UserIndex
        (sysbuf (Bus_EvtIoDeviceControl sample_constants sample_env (sample_req 12 12 0 1) 12 12
           (IOCTL_XUSB_GET_USER_INDEX sample_constants) sample_state)) = Some 0"
    by simp
  from sample_labels_distinct a c d e f g show ?thesis by blast
qed

text \<open>
  C1. When the input buffer of an operation on a target is retrieved (and, where the case
  checks it, the output capacity suffices) but the declared \<^verbatim>\<open>Size\<close> or the retrieved
  length is wrong, the body of the size check is skipped and \<^verbatim>\<open>status\<close> keeps the value
  that \<^verbatim>\<open>WdfRequestRetrieveInputBuffer\<close> returned: a success status, never
  \<^verbatim>\<open>STATUS_INVALID_PARAMETER\<close>. The version check, next to it, sets
  \<^verbatim>\<open>STATUS_INVALID_PARAMETER\<close> on a wrong length.
\<close>

theorem size_mismatch_keeps_retrieval_status:
  assumes "distinct (case_labels k)"
    and "output_fits k out op"
    and "NT_SUCCESS (retrieved_status k env Request op)"
    and "\<not> size_checks_pass k env Request inl op"
  shows "status (Bus_EvtIoDeviceControl k env Request out inl (op_code k op) s)
           = retrieved_status k env Request op
       \<and> status (Bus_EvtIoDeviceControl k env Request out inl (op_code k op) s)
           \<noteq> STATUS_INVALID_PARAMETER"
proof -
  obtain st buf n where
    r: "WdfRequestRetrieveInputBuffer env Request (op_size k op) = (st, buf, n)"
    by (cases "WdfRequestRetrieveInputBuffer env Request (op_size k op)") auto
  with assms(2-4) have h: "NT_SUCCESS st" "\<not> (op_size k op = unat (Size buf) \<and> n = inl)"
      "expects_output op \<Longrightarrow> \<not> out < op_size k op"
    by (simp_all add: vocab_defs split: if_splits)
  from r have q: "retrieved_status k env Request op = st"
    by (simp add: retrieved_status_def)
  from h(2) consider (size) "op_size k op \<noteq> unat (Size buf)" | (length) "n \<noteq> inl"
    by blast
  then have "status (Bus_EvtIoDeviceControl_switch k env Request out inl (op_code k op) s) = st"
  proof cases
    case size
    with r h(1,3) show ?thesis
      by (cases op) (simp_all add: switch_target_op [OF assms(1)] case_defs)
  next
    case length
    with r h(1,3) show ?thesis
      by (cases op) (simp_all add: switch_target_op [OF assms(1)] case_defs)
  qed
  with h(1) show ?thesis
    by (simp add: Bus_EvtIoDeviceControl_def Let_def q success_is_not_invalid_parameter
        status_codes_differ(1) [symmetric])
qed

theorem size_mismatch_completes_with_success:
  "distinct (case_labels sample_constants)
   \<and> output_fits sample_constants 0 XusbSubmit
   \<and> \<not> size_checks_pass sample_constants sample_env (sample_req 20 0 0 1) 20 XusbSubmit
   \<and> status (Bus_EvtIoDeviceControl sample_constants sample_env (sample_req 20 0 0 1) 0 20
        (op_code sample_constants XusbSubmit) sample_state) = STATUS_SUCCESS
   \<and> STATUS_SUCCESS \<noteq> STATUS_INVALID_PARAMETER"
proof -
  have a: "output_fits sample_constants 0 XusbSubmit"
    by (simp add: output_fits_def)
  have b: "NT_SUCCESS
      (retrieved_status sample_constants sample_env (sample_req 20 0 0 1) XusbSubmit)"
    by (simp add: sample_retrieved sample_sizes NT_SUCCESS_simps)
  have c: "\<not> size_checks_pass sample_constants sample_env (sample_req 20 0 0 1) 20 XusbSubmit"
    by (simp add: size_checks_pass_def sample_retrieved sample_req_fields sample_sizes)
  have d: "retrieved_status sample_constants sample_env (sample_req 20 0 0 1) XusbSubmit
      = STATUS_SUCCESS"
    by (simp add: sample_retrieved sample_sizes)
  from size_mismatch_keeps_retrieval_status
    [OF sample_labels_distinct a b c, of sample_state]
  have e: "status (Bus_EvtIoDeviceControl sample_constants sample_env (sample_req 20 0 0 1) 0 20
        (op_code sample_constants XusbSubmit) sample_state) = STATUS_SUCCESS"
    by (simp only: d)
  from sample_labels_distinct a c e status_codes_differ(6) show ?thesis by blast
qed

text \<open>
  What a failed check of an operation on a target leaves behind: the state it started in,
  and no call other than the retrieval of the input buffer.
\<close>

lemma list_ex_target_ops:
  "list_ex P [XusbSubmit, XusbNotify, Ds4Submit, Ds4Notify, XusbGetUserIndex] = (\<exists>op. P op)"
proof
  assume "list_ex P [XusbSubmit, XusbNotify, Ds4Submit, Ds4Notify, XusbGetUserIndex]"
  then show "\<exists>op. P op"
    by (auto simp add: list_ex_iff)
next
  assume "\<exists>op. P op"
  then obtain op where "P op" ..
  then show "list_ex P [XusbSubmit, XusbNotify, Ds4Submit, Ds4Notify, XusbGetUserIndex]"
    by (cases op) simp_all
qed

lemma failed_target_check_switch:
  assumes "distinct (case_labels k)"
    and "\<not> validated k env Request out inl op"
  shows "state (Bus_EvtIoDeviceControl_switch k env Request out inl (op_code k op) s) = s
       \<and> filter touches_bus
           (trace (Bus_EvtIoDeviceControl_switch k env Request out inl (op_code k op) s)) = []"
proof -
  obtain st buf n where
    r: "WdfRequestRetrieveInputBuffer env Request (op_size k op) = (st, buf, n)"
    by (cases "WdfRequestRetrieveInputBuffer env Request (op_size k op)") auto
  with assms(2) have
    "\<not> (expects_output op \<longrightarrow> op_size k op \<le> out) \<or> \<not> NT_SUCCESS st
     \<or> op_size k op \<noteq> unat (Size buf) \<or> n \<noteq> inl \<or> SerialNo buf = 0"
    by (auto simp add: vocab_defs)
  then consider
      (capacity) "expects_output op" "\<not> op_size k op \<le> out"
    | (retrieval) "\<not> NT_SUCCESS st"
    | (size) "NT_SUCCESS st" "op_size k op \<noteq> unat (Size buf)"
    | (length) "NT_SUCCESS st" "n \<noteq> inl"
    | (serial) "NT_SUCCESS st" "SerialNo buf = 0"
    by blast
  then show ?thesis
  proof cases
    case capacity
    then show ?thesis
      by (cases op) (simp_all add: switch_target_op [OF assms(1)] case_defs)
  next
    case retrieval
    with r show ?thesis
      by (cases op) (simp_all add: switch_target_op [OF assms(1)] case_defs)
  next
    case size
    with r show ?thesis
      by (cases op) (simp_all add: switch_target_op [OF assms(1)] case_defs)
  next
    case length
    with r show ?thesis
      by (cases op) (simp_all add: switch_target_op [OF assms(1)] case_defs)
  next
    case serial
    with r show ?thesis
      by (cases op) (simp_all add: switch_target_op [OF assms(1)] case_defs)
  qed
qed

lemma failed_version_check_switch:
  assumes "version_check_fails k env Request"
  shows "state (Bus_EvtIoDeviceControl_switch k env Request out inl
                  (IOCTL_VIGEM_CHECK_VERSION k) s) = s
       \<and> filter touches_bus
           (trace (Bus_EvtIoDeviceControl_switch k env Request out inl
                     (IOCTL_VIGEM_CHECK_VERSION k) s)) = []"
  using assms
  by (auto simp add: version_check_fails_def switch_CHECK_VERSION case_CHECK_VERSION_def
      split: prod.splits)

text \<open>
  A plug-in or unplug as modelled above returns before the registry operation when a check
  fails, with the state it was given.
\<close>

lemma failed_plug_in_check_switch:
  assumes "distinct (case_labels k)"
    and "Bus_PlugInDevice env =
           spec_Bus_PlugInDevice (WdfRequestRetrieveInputBuffer env) szP PlugIn"
    and "registry_check_fails env szP Request"
  shows "Bus_EvtIoDeviceControl_switch k env Request out inl (IOCTL_VIGEM_PLUGIN_TARGET k) s =
           \<lparr>status = STATUS_INVALID_PARAMETER, len = 0, sysbuf = None, state = s,
            trace = [Call_PlugInDevice]\<rparr>"
proof -
  obtain st buf n where
    r: "WdfRequestRetrieveInputBuffer env Request szP = (st, buf, n)"
    by (cases "WdfRequestRetrieveInputBuffer env Request szP") auto
  with assms(3) have
    "\<not> NT_SUCCESS st \<or> szP \<noteq> unat (Size buf) \<or> n \<noteq> unat (Size buf) \<or> SerialNo buf = 0"
    by (simp add: registry_check_fails_def)
  with r have "spec_Bus_PlugInDevice (WdfRequestRetrieveInputBuffer env) szP PlugIn Request s
      = ((STATUS_INVALID_PARAMETER, 0), s)"
    by (auto simp add: spec_Bus_PlugInDevice_def)
  then show ?thesis
    by (simp add: switch_registry_op [OF assms(1)] case_PLUGIN_TARGET_def assms(2))
qed

lemma failed_unplug_check_switch:
  assumes "distinct (case_labels k)"
    and "Bus_UnPlugDevice env =
           spec_Bus_UnPlugDevice (WdfRequestRetrieveInputBuffer env) szU Unplug"
    and "registry_check_fails env szU Request"
  shows "Bus_EvtIoDeviceControl_switch k env Request out inl (IOCTL_VIGEM_UNPLUG_TARGET k) s =
           \<lparr>status = STATUS_INVALID_PARAMETER, len = 0, sysbuf = None, state = s,
            trace = [Call_UnPlugDevice]\<rparr>"
proof -
  obtain st buf n where
    r: "WdfRequestRetrieveInputBuffer env Request szU = (st, buf, n)"
    by (cases "WdfRequestRetrieveInputBuffer env Request szU") auto
  with assms(3) have
    "\<not> NT_SUCCESS st \<or> szU \<noteq> unat (Size buf) \<or> n \<noteq> unat (Size buf) \<or> SerialNo buf = 0"
    by (simp add: registry_check_fails_def)
  with r have "spec_Bus_UnPlugDevice (WdfRequestRetrieveInputBuffer env) szU Unplug Request s
      = ((STATUS_INVALID_PARAMETER, 0), s)"
    by (auto simp add: spec_Bus_UnPlugDevice_def)
  then show ?thesis
    by (simp add: switch_registry_op [OF assms(1)] case_UNPLUG_TARGET_def assms(2))
qed

lemma labels_differ:
  assumes "distinct (case_labels k)"
  shows "IOCTL_VIGEM_PLUGIN_TARGET k \<noteq> IOCTL_VIGEM_UNPLUG_TARGET k"
    and "IOCTL_VIGEM_CHECK_VERSION k \<noteq> IOCTL_VIGEM_PLUGIN_TARGET k"
    and "IOCTL_VIGEM_CHECK_VERSION k \<noteq> IOCTL_VIGEM_UNPLUG_TARGET k"
    and "op_code k op \<noteq> IOCTL_VIGEM_PLUGIN_TARGET k"
    and "op_code k op \<noteq> IOCTL_VIGEM_UNPLUG_TARGET k"
    and "IOCTL_VIGEM_PLUGIN_TARGET k \<in> set (case_labels k)"
    and "IOCTL_VIGEM_UNPLUG_TARGET k \<in> set (case_labels k)"
  using assms by (cases op; auto simp add: case_labels_def)+

lemma failed_validation_switch:
  assumes "distinct (case_labels k)"
    and "Bus_PlugInDevice env =
           spec_Bus_PlugInDevice (WdfRequestRetrieveInputBuffer env) szP PlugIn"
    and "Bus_UnPlugDevice env =
           spec_Bus_UnPlugDevice (WdfRequestRetrieveInputBuffer env) szU Unplug"
    and "validation_fails k env szP szU Request out inl c"
  shows "state (Bus_EvtIoDeviceControl_switch k env Request out inl c s) = s
       \<and> filter touches_bus (trace (Bus_EvtIoDeviceControl_switch k env Request out inl c s))
           = (if c = IOCTL_VIGEM_PLUGIN_TARGET k then [Call_PlugInDevice]
              else if c = IOCTL_VIGEM_UNPLUG_TARGET k then [Call_UnPlugDevice]
              else [])"
proof -
  note d = labels_differ [OF assms(1)]
  from assms(4) consider
      (unknown) "c \<notin> set (case_labels k)"
    | (version) "c = IOCTL_VIGEM_CHECK_VERSION k" "version_check_fails k env Request"
    | (plug) "c = IOCTL_VIGEM_PLUGIN_TARGET k" "registry_check_fails env szP Request"
    | (unplug) "c = IOCTL_VIGEM_UNPLUG_TARGET k" "registry_check_fails env szU Request"
    | (target) op where "c = op_code k op" "\<not> validated k env Request out inl op"
    unfolding validation_fails_def target_check_fails_def list_ex_target_ops
    by blast
  then show ?thesis
  proof cases
    case unknown
    with d(6,7) have "c \<noteq> IOCTL_VIGEM_PLUGIN_TARGET k" "c \<noteq> IOCTL_VIGEM_UNPLUG_TARGET k"
      by blast+
    with unknown show ?thesis
      by (simp add: switch_default)
  next
    case version
    with d(2,3) show ?thesis
      by (simp add: failed_version_check_switch)
  next
    case plug
    with d(1) show ?thesis
      by (simp add: failed_plug_in_check_switch [OF assms(1,2)])
  next
    case unplug
    with d(1) show ?thesis
      by (simp add: failed_unplug_check_switch [OF assms(1,3)])
  next
    case target
    with d(4,5) show ?thesis
      by (simp add: failed_target_check_switch [OF assms(1)])
  qed
qed

lemma failed_validation_once:
  fixes env :: "('s, 'p, 'r) collaborators"
  assumes "distinct (case_labels k)"
    and "Bus_PlugInDevice env =
           spec_Bus_PlugInDevice (WdfRequestRetrieveInputBuffer env) szP PlugIn"
    and "Bus_UnPlugDevice env =
           spec_Bus_UnPlugDevice (WdfRequestRetrieveInputBuffer env) szU Unplug"
    and "validation_fails k env szP szU Request out inl c"
  shows "state (Bus_EvtIoDeviceControl k env Request out inl c s) = s"
    and "filter touches_bus (trace (Bus_EvtIoDeviceControl k env Request out inl c s))
           = (if c = IOCTL_VIGEM_PLUGIN_TARGET k then [Call_PlugInDevice]
              else if c = IOCTL_VIGEM_UNPLUG_TARGET k then [Call_UnPlugDevice]
              else [])"
proof -
  define X where "X = Bus_EvtIoDeviceControl_switch k env Request out inl c s"
  define T where "T = (if c = IOCTL_VIGEM_PLUGIN_TARGET k then [Call_PlugInDevice]
      else if c = IOCTL_VIGEM_UNPLUG_TARGET k then [Call_UnPlugDevice]
      else ([] :: 'p event list))"
  from failed_validation_switch [OF assms, of s]
  have st: "state X = s" and tr: "filter touches_bus (trace X) = T"
    by (simp_all only: X_def T_def)
  have B: "Bus_EvtIoDeviceControl k env Request out inl c s =
      (if status X \<noteq> STATUS_PENDING
       then X\<lparr>trace := trace X @ [Call_CompleteWithInformation (status X) (len X)]\<rparr>
       else X)"
    by (simp add: Bus_EvtIoDeviceControl_def Let_def X_def)
  show "state (Bus_EvtIoDeviceControl k env Request out inl c s) = s"
    by (simp add: B st)
  have "filter touches_bus (trace (Bus_EvtIoDeviceControl k env Request out inl c s)) = T"
    by (simp add: B tr)
  then show "filter touches_bus (trace (Bus_EvtIoDeviceControl k env Request out inl c s))
           = (if c = IOCTL_VIGEM_PLUGIN_TARGET k then [Call_PlugInDevice]
              else if c = IOCTL_VIGEM_UNPLUG_TARGET k then [Call_UnPlugDevice]
              else [])"
    by (simp only: T_def)
qed

lemma failed_validation_repeated:
  assumes "distinct (case_labels k)"
    and "Bus_PlugInDevice env =
           spec_Bus_PlugInDevice (WdfRequestRetrieveInputBuffer env) szP PlugIn"
    and "Bus_UnPlugDevice env =
           spec_Bus_UnPlugDevice (WdfRequestRetrieveInputBuffer env) szU Unplug"
    and "validation_fails k env szP szU Request out inl c"
  shows "repeated m k env Request out inl c s = s"
  by (induction m) (simp_all add: failed_validation_once(1) [OF assms])

text \<open>
  C8. A request on which a validation check fails leaves the state of the bus as it was,
  and so does the same request repeated any number of times. The checks are: an unknown
  code; for a version check, buffer not retrieved or wrong length; for an operation on a
  target, buffer not retrieved, wrong \<^verbatim>\<open>Size\<close>, wrong length, serial 0 or too little
  output capacity; for a plug-in or unplug, which \<^verbatim>\<open>Bus_EvtIoDeviceControl\<close> hands to
  \<^verbatim>\<open>Bus_PlugInDevice\<close> and \<^verbatim>\<open>Bus_UnPlugDevice\<close> as the spec describes them, buffer
  not retrieved, wrong \<^verbatim>\<open>Size\<close>, wrong length or serial 0. The only call to the bus is
  the entry into \<^verbatim>\<open>Bus_PlugInDevice\<close> or \<^verbatim>\<open>Bus_UnPlugDevice\<close> for those two codes,
  and none for every other code: no registry lookup and no call on a target.
\<close>

theorem invalid_request_changes_nothing:
  assumes "distinct (case_labels k)"
    and "Bus_PlugInDevice env =
           spec_Bus_PlugInDevice (WdfRequestRetrieveInputBuffer env) szP PlugIn"
    and "Bus_UnPlugDevice env =
           spec_Bus_UnPlugDevice (WdfRequestRetrieveInputBuffer env) szU Unplug"
    and "validation_fails k env szP szU Request out inl c"
  shows "state (Bus_EvtIoDeviceControl k env Request out inl c s) = s
       \<and> filter touches_bus (trace (Bus_EvtIoDeviceControl k env Request out inl c s))
           = (if c = IOCTL_VIGEM_PLUGIN_TARGET k then [Call_PlugInDevice]
              else if c = IOCTL_VIGEM_UNPLUG_TARGET k then [Call_UnPlugDevice]
              else [])
       \<and> repeated m k env Request out inl c s = s"
  using failed_validation_once [OF assms] failed_validation_repeated [OF assms]
  by simp

theorem invalid_request_changes_nothing_witness:
  "distinct (case_labels sample_constants)
   \<and> Bus_PlugInDevice sample_env =
       spec_Bus_PlugInDevice (WdfRequestRetrieveInputBuffer sample_env) 16 sample_PlugIn
   \<and> Bus_UnPlugDevice sample_env =
       spec_Bus_UnPlugDevice (WdfRequestRetrieveInputBuffer sample_env) 8 sample_Unplug
   \<and> validation_fails sample_constants sample_env 16 8 (sample_req 20 0 0 1) 0 20
        (op_code sample_constants XusbSubmit)
   \<and> (Xbox360Wired, 1) \<in> set (plugged sample_state)
   \<and> state (Bus_EvtIoDeviceControl sample_constants sample_env (sample_req 20 0 0 1) 0 20
        (op_code sample_constants XusbSubmit) sample_state) = sample_state
   \<and> repeated 3 sample_constants sample_env (sample_req 20 0 0 1) 0 20
        (op_code sample_constants XusbSubmit) sample_state = sample_state
   \<and> validation_fails sample_constants sample_env 16 8 (sample_req 16 16 0 0) 0 16
        (IOCTL_VIGEM_PLUGIN_TARGET sample_constants)
   \<and> state (Bus_EvtIoDeviceControl sample_constants sample_env (sample_req 16 16 0 0) 0 16
        (IOCTL_VIGEM_PLUGIN_TARGET sample_constants) sample_state) = sample_state
   \<and> repeated 3 sample_constants sample_env (sample_req 16 16 0 0) 0 16
        (IOCTL_VIGEM_PLUGIN_TARGET sample_constants) sample_state = sample_state
   \<and> validation_fails sample_constants sample_env 16 8 (sample_req 8 12 0 1) 0 8
        (IOCTL_VIGEM_UNPLUG_TARGET sample_constants)
   \<and> state (Bus_EvtIoDeviceControl sample_constants sample_env (sample_req 8 12 0 1) 0 8
        (IOCTL_VIGEM_UNPLUG_TARGET sample_constants) sample_state) = sample_state"
proof -
  note p = sample_plug_unplug
  have "target_check_fails sample_constants sample_env (sample_req 20 0 0 1) 0 20 XusbSubmit"
    by (simp add: target_check_fails_def validated_def size_checks_pass_def sample_retrieved
        sample_req_fields sample_sizes)
  then have a: "validation_fails sample_constants sample_env 16 8 (sample_req 20 0 0 1) 0 20
        (op_code sample_constants XusbSubmit)"
    by (simp add: validation_fails_def)
  have "registry_check_fails sample_env 16 (sample_req 16 16 0 0)"
    by (simp add: registry_check_fails_def sample_retrieve sample_req_fields)
  then have b: "validation_fails sample_constants sample_env 16 8 (sample_req 16 16 0 0) 0 16
        (IOCTL_VIGEM_PLUGIN_TARGET sample_constants)"
    by (simp add: validation_fails_def)
  have "registry_check_fails sample_env 8 (sample_req 8 12 0 1)"
    by (simp add: registry_check_fails_def sample_retrieve sample_req_fields)
  then have c: "validation_fails sample_constants sample_env 16 8 (sample_req 8 12 0 1) 0 8
        (IOCTL_VIGEM_UNPLUG_TARGET sample_constants)"
    by (simp add: validation_fails_def)
  have d: "(Xbox360Wired, 1) \<in> set (plugged sample_state)"
    by (simp add: sample_plugged)
  from sample_labels_distinct p a b c d
    invalid_request_changes_nothing [OF sample_labels_distinct p a, of sample_state 3]
    invalid_request_changes_nothing [OF sample_labels_distinct p b, of sample_state 3]
    invalid_request_changes_nothing [OF sample_labels_distinct p c, of sample_state 3]
  show ?thesis by blast
qed

end
